theory Spec2Isabelle
  imports Complex_Main
begin

section \<open>JavaScript values\<close>

text \<open>
  JSON-like JavaScript values. An object is an association list in insertion order,
  as \<open>JSON.stringify\<close> and object spread see it. A property that is absent reads
  as \<open>undefined\<close>, which is \<open>None\<close> here. A number is the rational that a
  double is; arithmetic on numbers rounds its result to a double (\<open>double_round\<close>
  below).
\<close>

datatype json =
    JNull
  | JBool bool
  | JNum rat
  | JStr string
  | JArr "json list"
  | JObj "(string \<times> json) list"

section \<open>Airtable automation script for the two-way sync\<close>

text \<open>
  Source: \<open>02-wordpress/06-Auto-Sync-Stock/airtable-automation-bidirectional.js\<close>.
\<close>

definition WEBHOOK_URL :: string where
  "WEBHOOK_URL = ''https://webhook.4more.ca/webhook/airtable''"

definition WEBHOOK_SECRET :: string where
  "WEBHOOK_SECRET = ''your_webhook_secret''"

definition SYNC_THRESHOLD_MINUTES :: rat where
  "SYNC_THRESHOLD_MINUTES = 1"

text \<open>
  A record of the Products table, with the cells the script reads.
  \<open>Last WooCommerce Sync\<close> is a date-time cell: \<open>getCellValue\<close> gives \<open>null\<close>
  (here \<open>None\<close>) when it is empty and an ISO 8601 string otherwise, which
  \<open>new Date(...)\<close> turns into milliseconds since the epoch; the model keeps those
  milliseconds. Every other cell of the record (and so whatever an edit changed, and who
  made it) lives in the extension part of the record scheme, which the script never reads.
\<close>

record product_record =
  record_id :: string
  Product_Name :: string
  SKU :: string
  Stock_Quantity :: json
  Last_WooCommerce_Sync :: "int option"

text \<open>\<open>input.config()\<close>: a missing \<open>recordId\<close> is \<open>None\<close>.\<close>

record input_config =
  recordId :: "string option"
  triggerType :: string

text \<open>
  \<open>shouldSync(record)\<close>, with the global \<open>triggerType\<close> and the clock
  (\<open>new Date()\<close>, in milliseconds) as arguments. \<open>now - lastSyncTime\<close> is a whole
  number of milliseconds and the division by \<open>1000 * 60\<close> is exact here; the
  double-precision quotient of the source is below 1 for exactly the same differences.
\<close>

definition shouldSync :: "string \<Rightarrow> int \<Rightarrow> 'a product_record_scheme \<Rightarrow> bool" where
  "shouldSync trigger now record =
     (if trigger = ''create'' then True
      else
        (case Last_WooCommerce_Sync record of
           None \<Rightarrow> True
         | Some lastSyncTime \<Rightarrow>
             (let minutesSinceSync = (of_int (now - lastSyncTime) :: rat) / (1000 * 60)
              in if minutesSinceSync < SYNC_THRESHOLD_MINUTES then False else True)))"

text \<open>The request passed to \<open>fetch\<close>.\<close>

record http_request =
  url :: string
  http_method :: string
  headers :: "(string \<times> string) list"
  body :: json

text \<open>
  \<open>fetch\<close> rejects (\<open>FetchThrows\<close>), or resolves to a response that is not
  \<open>ok\<close> (with its text), or to one that is \<open>ok\<close>, whose \<open>response.json()\<close>
  gives a value or rejects.
\<close>

datatype fetch_result =
    FetchThrows string
  | FetchNotOk string
  | FetchOk json
  | FetchOkNotJson string

text \<open>
  What a run of the script leaves behind: the values given to \<open>output.set\<close>, in order,
  and the calls of \<open>fetch\<close>, in order. The body of a request is kept as the value handed
  to \<open>JSON.stringify\<close>, and \<open>output.set('response', JSON.stringify(result))\<close> as the value
  \<open>result\<close>.
\<close>

record script_run =
  outputs :: "(string \<times> json) list"
  requests :: "http_request list"

text \<open>\<open>table.selectRecordAsync(recordId)\<close>: the record with that id, or \<open>null\<close>.\<close>

definition selectRecordAsync :: "'a product_record_scheme list \<Rightarrow> string \<Rightarrow> 'a product_record_scheme option" where
  "selectRecordAsync table rid = find (\<lambda>r. record_id r = rid) table"

text \<open>Assignment to a property of an object: replaces the value in place, or appends.\<close>

fun obj_set :: "string \<Rightarrow> json \<Rightarrow> (string \<times> json) list \<Rightarrow> (string \<times> json) list" where
  "obj_set k v [] = [(k, v)]"
| "obj_set k v ((k', v') # kvs) = (if k = k' then (k, v) # kvs else (k', v') # obj_set k v kvs)"

text \<open>
  \<open>webhookData\<close>: the object literal first, then \<open>webhookData.record.fields = {...}\<close>
  unless the trigger is a delete. \<open>getCellValueAsString\<close> gives the text of a cell.
\<close>

definition webhookData :: "string \<Rightarrow> string \<Rightarrow> 'a product_record_scheme \<Rightarrow> json" where
  "webhookData trigger base_id record =
     (let record_obj = [(''id'', JStr (record_id record))];
          record_obj' =
            (if trigger \<noteq> ''delete''
             then obj_set ''fields''
                    (JObj [(''Product Name'', JStr (Product_Name record)),
                           (''SKU'', JStr (SKU record)),
                           (''Stock Quantity'', Stock_Quantity record)])
                    record_obj
             else record_obj)
      in JObj [(''type'', JStr (''record.'' @ trigger @ ''d'')),
               (''base'', JObj [(''id'', JStr base_id)]),
               (''record'', JObj record_obj')])"

definition webhook_request :: "json \<Rightarrow> http_request" where
  "webhook_request data =
     \<lparr>url = WEBHOOK_URL, http_method = ''POST'',
      headers = [(''Content-Type'', ''application/json''),
                 (''X-Airtable-Signature'', WEBHOOK_SECRET)],
      body = data\<rparr>"

text \<open>
  The main execution. \<open>fetch\<close> is the environment's answer to a request; \<open>base_id\<close> is
  \<open>base.id\<close>. A \<open>recordId\<close> is falsy when it is missing or the empty string.
\<close>

definition run_script ::
  "(http_request \<Rightarrow> fetch_result) \<Rightarrow> string \<Rightarrow> int \<Rightarrow> 'a product_record_scheme list \<Rightarrow>
   input_config \<Rightarrow> script_run" where
  "run_script fetch base_id now table inputConfig =
     (case recordId inputConfig of
        None \<Rightarrow> \<lparr>outputs = [(''status'', JStr ''no_record_id'')], requests = []\<rparr>
      | Some rid \<Rightarrow>
          if rid = [] then \<lparr>outputs = [(''status'', JStr ''no_record_id'')], requests = []\<rparr>
          else
            (case selectRecordAsync table rid of
               None \<Rightarrow> \<lparr>outputs = [(''status'', JStr ''record_not_found'')], requests = []\<rparr>
             | Some record \<Rightarrow>
                 if \<not> shouldSync (triggerType inputConfig) now record
                 then \<lparr>outputs = [(''status'', JStr ''skipped'')], requests = []\<rparr>
                 else
                   (let req = webhook_request (webhookData (triggerType inputConfig) base_id record)
                    in case fetch req of
                         FetchOk result \<Rightarrow>
                           \<lparr>outputs = [(''status'', JStr ''success''), (''response'', result)],
                            requests = [req]\<rparr>
                       | FetchNotOk error \<Rightarrow>
                           \<lparr>outputs = [(''status'', JStr ''error''), (''error'', JStr error)],
                            requests = [req]\<rparr>
                       | FetchThrows error \<Rightarrow>
                           \<lparr>outputs = [(''status'', JStr ''error''), (''error'', JStr error)],
                            requests = [req]\<rparr>
                       | FetchOkNotJson error \<Rightarrow>
                           \<lparr>outputs = [(''status'', JStr ''error''), (''error'', JStr error)],
                            requests = [req]\<rparr>)))"

section \<open>Backend server with Airtable as the database\<close>

text \<open>
  Source: \<open>server.js\<close>, as printed in \<open>04-4more-apps/complete-deployment-guide.md\<close>.
\<close>

subsection \<open>JavaScript objects and operators\<close>

type_synonym jsobject = "(string \<times> json) list"

definition obj_get :: "jsobject \<Rightarrow> string \<Rightarrow> json option" where
  "obj_get obj k = map_of obj k"

text \<open>
  Writing a property. A property written as \<open>undefined\<close> is dropped: that is how
  \<open>JSON.stringify\<close>, and so \<open>res.json\<close> and the Airtable client, see it.
\<close>

definition obj_put :: "string \<Rightarrow> json option \<Rightarrow> jsobject \<Rightarrow> jsobject" where
  "obj_put k v obj =
     (case v of None \<Rightarrow> filter (\<lambda>kv. fst kv \<noteq> k) obj | Some x \<Rightarrow> obj_set k x obj)"

text \<open>An object literal \<open>{k1: v1, ..., kn: vn}\<close>: the properties are written in order.\<close>

definition obj_literal :: "(string \<times> json option) list \<Rightarrow> jsobject" where
  "obj_literal kvs = foldl (\<lambda>obj kv. obj_put (fst kv) (snd kv) obj) [] kvs"

text \<open>\<open>...obj\<close> inside an object literal.\<close>

definition spread :: "jsobject \<Rightarrow> (string \<times> json option) list" where
  "spread obj = map (\<lambda>kv. (fst kv, Some (snd kv))) obj"

text \<open>Truthiness of a value (\<open>None\<close> is \<open>undefined\<close>), and \<open>x || d\<close>.\<close>

fun truthy :: "json option \<Rightarrow> bool" where
  "truthy None = False"
| "truthy (Some JNull) = False"
| "truthy (Some (JBool b)) = b"
| "truthy (Some (JNum n)) = (n \<noteq> 0)"
| "truthy (Some (JStr s)) = (s \<noteq> [])"
| "truthy (Some (JArr xs)) = True"
| "truthy (Some (JObj kvs)) = True"

definition js_or :: "json option \<Rightarrow> json \<Rightarrow> json" where
  "js_or x d = (case x of Some v \<Rightarrow> if truthy x then v else d | None \<Rightarrow> d)"

text \<open>\<open>typeof x\<close>.\<close>

fun typeof :: "json option \<Rightarrow> string" where
  "typeof None = ''undefined''"
| "typeof (Some JNull) = ''object''"
| "typeof (Some (JBool b)) = ''boolean''"
| "typeof (Some (JNum n)) = ''number''"
| "typeof (Some (JStr s)) = ''string''"
| "typeof (Some (JArr xs)) = ''object''"
| "typeof (Some (JObj kvs)) = ''object''"

text \<open>An element of an array literal: \<open>undefined\<close> is serialised as \<open>null\<close>.\<close>

definition elem :: "json option \<Rightarrow> json" where
  "elem x = (case x of None \<Rightarrow> JNull | Some v \<Rightarrow> v)"

text \<open>\<open>xs.join(sep)\<close> on strings.\<close>

fun join :: "string \<Rightarrow> string list \<Rightarrow> string" where
  "join sep [] = []"
| "join sep [x] = x"
| "join sep (x # y # ys) = x @ sep @ join sep (y # ys)"

text \<open>\<open>s.split(' ')\<close>: the pieces between the spaces; \<open>cur\<close> is the piece being read.\<close>

fun split_acc :: "string \<Rightarrow> string \<Rightarrow> string list" where
  "split_acc cur [] = [cur]"
| "split_acc cur (c # cs) =
     (if c = CHR '' '' then cur # split_acc [] cs else split_acc (cur @ [c]) cs)"

definition split_space :: "string \<Rightarrow> string list" where
  "split_space s = split_acc [] s"

text \<open>\<open>xs[i]\<close>, \<open>undefined\<close> out of range.\<close>

definition index :: "'a list \<Rightarrow> nat \<Rightarrow> 'a option" where
  "index xs i = (if i < length xs then Some (xs ! i) else None)"

subsection \<open>Numbers\<close>

text \<open>
  The result of an arithmetic operation is the double nearest to the exact result, a
  tie going to the double with the even significand. \<open>bit_length n\<close> is the number
  of binary digits of \<open>n\<close>; \<open>exponent2 q\<close> is the \<open>k\<close> with
  \<open>2^k \<le> q < 2^(k+1)\<close>, for a positive \<open>q\<close>; a double has 53 significant bits, so
  those around \<open>q\<close> are \<open>2^(k-52)\<close> apart. Whole numbers up to \<open>2^53\<close> in
  magnitude are doubles. (Overflow and subnormal results are not modelled; adding 1 to a
  double gives neither.)
\<close>

function bit_length :: "int \<Rightarrow> int" where
  "bit_length n = (if n \<le> 0 then 0 else 1 + bit_length (n div 2))"
  by pat_completeness auto
termination
  by (relation "measure nat") auto

declare bit_length.simps [simp del]

definition pow2 :: "int \<Rightarrow> rat" where
  "pow2 k = (if 0 \<le> k then 2 ^ nat k else 1 / 2 ^ nat (- k))"

definition exponent2 :: "rat \<Rightarrow> int" where
  "exponent2 q =
     (let k = bit_length (fst (quotient_of q)) - bit_length (snd (quotient_of q))
      in if pow2 k \<le> q then k else k - 1)"

definition round_half_even :: "rat \<Rightarrow> int" where
  "round_half_even m =
     (let f = \<lfloor>m\<rfloor>; d = m - of_int f
      in if d < 1 / 2 then f else if 1 / 2 < d then f + 1 else if even f then f else f + 1)"

definition double_round :: "rat \<Rightarrow> rat" where
  "double_round q =
     (if q = of_int \<lfloor>q\<rfloor> \<and> \<bar>q\<bar> \<le> 2 ^ 53 then q
      else (let u = pow2 (exponent2 \<bar>q\<bar> - 52) in of_int (round_half_even (q / u)) * u))"

text \<open>A thrown value: the name of its constructor and its \<open>message\<close>.\<close>

datatype js_error = JsError string string

fun message :: "js_error \<Rightarrow> string" where
  "message (JsError name msg) = msg"

subsection \<open>Airtable: tables, records, and the outcome of a call\<close>

text \<open>
  Airtable is a service outside the repository. The server talks to it through the
  \<open>airtable\<close> client: \<open>select(...).firstPage()\<close>, \<open>select(...).all()\<close>,
  \<open>create\<close>, \<open>update\<close> and \<open>destroy\<close> on the four tables named in \<open>TABLES\<close>.
  What follows is the model of the service that the handlers run against: a table is the
  list of its records, and any call may fail.
\<close>

datatype table = USERS | PRODUCTS | SCAN_HISTORY | SETTINGS

fun table_name :: "table \<Rightarrow> string" where
  "table_name USERS = ''Users''"
| "table_name PRODUCTS = ''Products''"
| "table_name SCAN_HISTORY = ''ScanHistory''"
| "table_name SETTINGS = ''Settings''"

record airtable_record =
  rec_id :: string
  rec_fields :: jsobject

datatype airtable_op = Select | Create | Update | Destroy

text \<open>
  The state a request runs in: the four tables of the base, the console, and the part of
  Airtable the server does not control. \<open>faults\<close> says which of the coming calls to
  Airtable fail, in order, and with what message (\<open>None\<close>: the call goes through; an
  empty list: every call goes through). \<open>calls\<close> lists the calls made so far, each with
  its outcome. \<open>next_id\<close> counts the records created.
\<close>

record world =
  Users :: "airtable_record list"
  Products :: "airtable_record list"
  ScanHistory :: "airtable_record list"
  Settings :: "airtable_record list"
  faults :: "string option list"
  calls :: "(airtable_op \<times> table \<times> string option) list"
  console :: "string list"
  next_id :: nat

fun get_table :: "table \<Rightarrow> world \<Rightarrow> airtable_record list" where
  "get_table USERS w = Users w"
| "get_table PRODUCTS w = Products w"
| "get_table SCAN_HISTORY w = ScanHistory w"
| "get_table SETTINGS w = Settings w"

fun set_table :: "table \<Rightarrow> airtable_record list \<Rightarrow> world \<Rightarrow> world" where
  "set_table USERS rs w = w\<lparr>Users := rs\<rparr>"
| "set_table PRODUCTS rs w = w\<lparr>Products := rs\<rparr>"
| "set_table SCAN_HISTORY rs w = w\<lparr>ScanHistory := rs\<rparr>"
| "set_table SETTINGS rs w = w\<lparr>Settings := rs\<rparr>"

text \<open>
  An \<open>async\<close> computation: it runs in a world and either throws or returns a value.
\<close>

type_synonym 'a io = "world \<Rightarrow> (js_error + 'a) \<times> world"

definition returnE :: "'a \<Rightarrow> 'a io" where
  "returnE x w = (Inr x, w)"

definition throwE :: "js_error \<Rightarrow> 'a io" where
  "throwE err w = (Inl err, w)"

definition bindE :: "'a io \<Rightarrow> ('a \<Rightarrow> 'b io) \<Rightarrow> 'b io" where
  "bindE m f w = (case m w of (Inl err, w') \<Rightarrow> (Inl err, w') | (Inr x, w') \<Rightarrow> f x w')"

text \<open>\<open>try { m } catch (error) { h error }\<close>.\<close>

definition catchE :: "'a io \<Rightarrow> (js_error \<Rightarrow> 'a io) \<Rightarrow> 'a io" where
  "catchE m h w = (case m w of (Inl err, w') \<Rightarrow> h err w' | (Inr x, w') \<Rightarrow> (Inr x, w'))"

definition console_error :: "string \<Rightarrow> unit io" where
  "console_error line w = (Inr (), w\<lparr>console := console w @ [line]\<rparr>)"

text \<open>
  One call to Airtable. It fails with the message the world has scheduled for it, or else
  with \<open>rejected\<close> when Airtable refuses this very request; it is listed in \<open>calls\<close>
  with its outcome.
\<close>

definition next_fault :: "world \<Rightarrow> string option" where
  "next_fault w = (case faults w of [] \<Rightarrow> None | f # fs \<Rightarrow> f)"

definition after_call :: "airtable_op \<Rightarrow> table \<Rightarrow> string option \<Rightarrow> world \<Rightarrow> world" where
  "after_call op t outcome w = w\<lparr>faults := tl (faults w), calls := calls w @ [(op, t, outcome)]\<rparr>"

definition airtable_request :: "airtable_op \<Rightarrow> table \<Rightarrow> string option \<Rightarrow> unit io" where
  "airtable_request op t rejected w =
     (let outcome = (case next_fault w of Some m \<Rightarrow> Some m | None \<Rightarrow> rejected)
      in case outcome of
           None \<Rightarrow> (Inr (), after_call op t outcome w)
         | Some m \<Rightarrow> (Inl (JsError ''Error'' m), after_call op t outcome w))"

subsection \<open>The environment: built-ins and libraries\<close>

text \<open>
  What the server takes from outside the repository: the clock, the JavaScript built-ins
  that print and parse values, \<open>bcryptjs\<close>, \<open>jsonwebtoken\<close>, the process environment, and
  the three barcode providers behind \<open>axios\<close>, and three things Airtable decides: the
  id of a new record (\<open>new_record_id\<close>, from the count of records created), the order
  of records sorted by a field (\<open>airtable_order field descending\<close>), and the formula
  \<open>{field} >= 'text'\<close> (\<open>airtable_ge\<close>, on the cell). They are parameters of the model.
  \<open>parseInt\<close> and \<open>parseFloat\<close> give \<open>None\<close> for \<open>NaN\<close>; \<open>jwt_verify\<close> gives
  \<open>None\<close> when \<open>jwt.verify\<close> throws; a provider gives \<open>None\<close> when its lookup
  function returns \<open>null\<close> (no product, a failed request, or a missing API key: each of
  the three functions catches its own errors).
\<close>

record env =
  now_iso :: string
  today_iso :: string
  String_of :: "json \<Rightarrow> string"
  JSON_stringify :: "json \<Rightarrow> string"
  parseInt :: "json option \<Rightarrow> rat option"
  parseFloat :: "json option \<Rightarrow> rat option"
  bcrypt_hash :: "json option \<Rightarrow> js_error + string"
  bcrypt_compare :: "json option \<Rightarrow> json option \<Rightarrow> js_error + bool"
  JWT_SECRET :: "string option"
  jwt_sign :: "jsobject \<Rightarrow> string \<Rightarrow> string"
  jwt_verify :: "string \<Rightarrow> string \<Rightarrow> jsobject option"
  lookupOpenFoodFacts :: "json option \<Rightarrow> jsobject option"
  lookupUPCItemDB :: "json option \<Rightarrow> jsobject option"
  lookupBarcodeLookup :: "json option \<Rightarrow> jsobject option"
  new_record_id :: "nat \<Rightarrow> string"
  airtable_order :: "string \<Rightarrow> bool \<Rightarrow> airtable_record list \<Rightarrow> airtable_record list"
  airtable_ge :: "json option \<Rightarrow> string \<Rightarrow> bool"

text \<open>A value inside a template literal, \<open>`${v}`\<close>.\<close>

definition template :: "env \<Rightarrow> json option \<Rightarrow> string" where
  "template e x =
     (case x of
        None \<Rightarrow> ''undefined''
      | Some (JStr s) \<Rightarrow> s
      | Some JNull \<Rightarrow> ''null''
      | Some (JBool b) \<Rightarrow> (if b then ''true'' else ''false'')
      | Some v \<Rightarrow> String_of e v)"

text \<open>\<open>process.env.JWT_SECRET || 'your-secret-key'\<close>.\<close>

definition jwt_secret :: "env \<Rightarrow> string" where
  "jwt_secret e =
     (case JWT_SECRET e of None \<Rightarrow> ''your-secret-key''
      | Some s \<Rightarrow> if s = [] then ''your-secret-key'' else s)"

subsection \<open>Queries and writes\<close>

text \<open>
  The options of \<open>base(table).select({...})\<close>. \<open>filterByFormula\<close> is kept as the
  predicate on records that the formula denotes; \<open>maxRecords\<close> is \<open>None\<close> when it is
  not given and \<open>Some None\<close> when it is \<open>NaN\<close>; \<open>sort_by\<close> is a field and whether
  the direction is \<open>'desc'\<close>; \<open>fields_only\<close> is the option \<open>fields\<close>.
\<close>

record query =
  filterByFormula :: "airtable_record \<Rightarrow> bool"
  maxRecords :: "rat option option"
  sort_by :: "(string \<times> bool) option"
  fields_only :: "string list option"

text \<open>
  No formula: every record. The formula \<open>{field} = 'value'\<close>, which the server builds
  by pasting the field name and the value into a template: the records whose cell of
  that field holds exactly that text.
\<close>

definition no_formula :: "airtable_record \<Rightarrow> bool" where
  "no_formula r = True"

definition field_equals :: "string \<Rightarrow> string \<Rightarrow> airtable_record \<Rightarrow> bool" where
  "field_equals fieldName v r = (obj_get (rec_fields r) fieldName = Some (JStr v))"

text \<open>Airtable accepts a \<open>maxRecords\<close> that is a whole number, at least 1.\<close>

definition maxRecords_rejected :: "rat option option \<Rightarrow> string option" where
  "maxRecords_rejected m =
     (case m of
        None \<Rightarrow> None
      | Some None \<Rightarrow> Some ''INVALID_REQUEST_UNKNOWN''
      | Some (Some q) \<Rightarrow>
          if 1 \<le> q \<and> q = of_int \<lfloor>q\<rfloor> then None else Some ''INVALID_REQUEST_UNKNOWN'')"

definition project :: "string list option \<Rightarrow> airtable_record \<Rightarrow> airtable_record" where
  "project fs r =
     (case fs of None \<Rightarrow> r
      | Some names \<Rightarrow> r\<lparr>rec_fields := filter (\<lambda>kv. fst kv \<in> set names) (rec_fields r)\<rparr>)"

definition select_records :: "env \<Rightarrow> query \<Rightarrow> airtable_record list \<Rightarrow> airtable_record list" where
  "select_records e q recs =
     (let matching = filter (filterByFormula q) recs;
          ordered = (case sort_by q of None \<Rightarrow> matching
                     | Some fd \<Rightarrow> airtable_order e (fst fd) (snd fd) matching);
          limited = (case maxRecords q of Some (Some n) \<Rightarrow> take (nat \<lfloor>n\<rfloor>) ordered
                     | _ \<Rightarrow> ordered)
      in map (project (fields_only q)) limited)"

text \<open>\<open>.firstPage()\<close>: one call, at most 100 records. \<open>.all()\<close>: every record.\<close>

definition firstPage :: "env \<Rightarrow> table \<Rightarrow> query \<Rightarrow> airtable_record list io" where
  "firstPage e t q =
     bindE (airtable_request Select t (maxRecords_rejected (maxRecords q)))
       (\<lambda>_ w. (Inr (take 100 (select_records e q (get_table t w))), w))"

definition all_records :: "env \<Rightarrow> table \<Rightarrow> query \<Rightarrow> airtable_record list io" where
  "all_records e t q =
     bindE (airtable_request Select t (maxRecords_rejected (maxRecords q)))
       (\<lambda>_ w. (Inr (select_records e q (get_table t w)), w))"

text \<open>\<open>base(table).create(fields)\<close>: a new record, at the end of the table.\<close>

definition airtable_create :: "env \<Rightarrow> table \<Rightarrow> jsobject \<Rightarrow> airtable_record io" where
  "airtable_create e t flds =
     bindE (airtable_request Create t None)
       (\<lambda>_ w. (let r = \<lparr>rec_id = new_record_id e (next_id w), rec_fields = flds\<rparr>
               in (Inr r, (set_table t (get_table t w @ [r]) w)\<lparr>next_id := Suc (next_id w)\<rparr>)))"

text \<open>
  \<open>base(table).update(recordId, fields)\<close>: the given fields are written over those of
  the record; Airtable refuses an id that no record of the table has.
\<close>

definition merge_fields :: "jsobject \<Rightarrow> jsobject \<Rightarrow> jsobject" where
  "merge_fields old new = foldl (\<lambda>obj kv. obj_set (fst kv) (snd kv) obj) old new"

definition airtable_update :: "table \<Rightarrow> json option \<Rightarrow> jsobject \<Rightarrow> airtable_record io" where
  "airtable_update t rid flds w =
     (case find (\<lambda>r. rid = Some (JStr (rec_id r))) (get_table t w) of
        None \<Rightarrow> bindE (airtable_request Update t (Some ''NOT_FOUND''))
                  (\<lambda>_. throwE (JsError ''Error'' ''NOT_FOUND'')) w
      | Some r \<Rightarrow>
          bindE (airtable_request Update t None)
            (\<lambda>_ w'. (let r' = r\<lparr>rec_fields := merge_fields (rec_fields r) flds\<rparr>
                     in (Inr r',
                         set_table t
                           (map (\<lambda>x. if rec_id x = rec_id r then r' else x) (get_table t w')) w'))) w)"

text \<open>\<open>base(table).destroy(recordId)\<close>.\<close>

definition airtable_destroy :: "table \<Rightarrow> json option \<Rightarrow> unit io" where
  "airtable_destroy t rid w =
     (case find (\<lambda>r. rid = Some (JStr (rec_id r))) (get_table t w) of
        None \<Rightarrow> bindE (airtable_request Destroy t (Some ''NOT_FOUND''))
                  (\<lambda>_. throwE (JsError ''Error'' ''NOT_FOUND'')) w
      | Some r \<Rightarrow>
          bindE (airtable_request Destroy t None)
            (\<lambda>_ w'. (Inr (),
                      set_table t (filter (\<lambda>x. rec_id x \<noteq> rec_id r) (get_table t w')) w')) w)"

subsection \<open>Helper functions of the server\<close>

definition cleanRecord :: "airtable_record \<Rightarrow> jsobject" where
  "cleanRecord record =
     obj_literal ((''id'', Some (JStr (rec_id record))) # spread (rec_fields record))"

definition findRecordByField :: "env \<Rightarrow> table \<Rightarrow> string \<Rightarrow> string \<Rightarrow> jsobject option io" where
  "findRecordByField e t fieldName v =
     catchE
       (bindE (firstPage e t
                 \<lparr>filterByFormula = field_equals fieldName v, maxRecords = Some (Some 1),
                  sort_by = None, fields_only = None\<rparr>)
          (\<lambda>records. returnE (case records of [] \<Rightarrow> None | r # rs \<Rightarrow> Some (cleanRecord r))))
       (\<lambda>error.
          bindE (console_error (''Error finding record in '' @ table_name t @ '': '' @ message error))
            (\<lambda>_. returnE None))"

definition createRecord :: "env \<Rightarrow> table \<Rightarrow> jsobject \<Rightarrow> jsobject io" where
  "createRecord e t flds =
     catchE
       (bindE (airtable_create e t flds) (\<lambda>record. returnE (cleanRecord record)))
       (\<lambda>error.
          bindE (console_error (''Error creating record in '' @ table_name t @ '': '' @ message error))
            (\<lambda>_. throwE error))"

definition updateRecord :: "env \<Rightarrow> table \<Rightarrow> json option \<Rightarrow> jsobject \<Rightarrow> jsobject io" where
  "updateRecord e t rid flds =
     catchE
       (bindE (airtable_update t rid flds) (\<lambda>record. returnE (cleanRecord record)))
       (\<lambda>error.
          bindE (console_error (''Error updating record in '' @ table_name t @ '': '' @ message error))
            (\<lambda>_. throwE error))"

subsection \<open>Requests, responses and the authentication middleware\<close>

text \<open>
  What the handlers read from \<open>req\<close>: the \<open>authorization\<close> header, \<open>req.body\<close> and
  \<open>req.query\<close> as objects, \<open>req.params.barcode\<close>, \<open>req.protocol\<close>,
  \<open>req.get('host')\<close>, and \<open>req.file.filename\<close> (\<open>None\<close> when there is no file).
\<close>

record request =
  authorization :: "string option"
  req_body :: jsobject
  req_query :: jsobject
  param_barcode :: string
  protocol :: string
  host :: string
  file_filename :: "string option"

record response =
  status :: nat
  res_headers :: "(string \<times> string) list"
  res_body :: json

text \<open>\<open>res.status(code).json(value)\<close>; \<open>res.json(value)\<close> is the same with code 200.\<close>

definition json_response :: "nat \<Rightarrow> json \<Rightarrow> response" where
  "json_response code v = \<lparr>status = code, res_headers = [], res_body = v\<rparr>"

definition error_body :: "string \<Rightarrow> json" where
  "error_body msg = JObj [(''error'', JStr msg)]"

text \<open>
  The \<open>try { ... } catch (error) { ... res.status(500).json({ error: error.message }) }\<close>
  around the body of a handler. \<open>label\<close> is the text of the handler's
  \<open>console.error\<close>, when its \<open>catch\<close> has one.
\<close>

definition try_catch_500 :: "string option \<Rightarrow> response io \<Rightarrow> response io" where
  "try_catch_500 label handler_body =
     catchE handler_body
       (\<lambda>error.
          bindE (case label of None \<Rightarrow> returnE ()
                 | Some l \<Rightarrow> console_error (l @ '' '' @ message error))
            (\<lambda>_. returnE (json_response 500 (error_body (message error)))))"

text \<open>
  \<open>authHeader && authHeader.split(' ')[1]\<close>: \<open>undefined\<close> (or the empty header
  itself) when there is no header, else the second piece of the header.
\<close>

definition bearer_token :: "request \<Rightarrow> string option" where
  "bearer_token req =
     (case authorization req of
        None \<Rightarrow> None
      | Some authHeader \<Rightarrow> if authHeader = [] then Some [] else index (split_space authHeader) 1)"

text \<open>
  \<open>authenticateToken\<close>. The \<open>try\<close> block ends either in a response or in the call
  of \<open>next()\<close> with \<open>req.user\<close> set; \<open>next\<close> is the handler of the route, which gets
  the user.
\<close>

definition authenticate :: "env \<Rightarrow> request \<Rightarrow> (response + jsobject) io" where
  "authenticate e req =
     (case bearer_token req of
        None \<Rightarrow> returnE (Inl (json_response 401 (error_body ''Access token required'')))
      | Some token \<Rightarrow>
          if token = [] then returnE (Inl (json_response 401 (error_body ''Access token required'')))
          else
            catchE
              (case jwt_verify e token (jwt_secret e) of
                 None \<Rightarrow> throwE (JsError ''JsonWebTokenError'' ''invalid token'')
               | Some decoded \<Rightarrow>
                   bindE (findRecordByField e USERS ''Email'' (template e (obj_get decoded ''email'')))
                     (\<lambda>user. case user of
                        None \<Rightarrow> returnE (Inl (json_response 403 (error_body ''User not found'')))
                      | Some u \<Rightarrow> returnE (Inr u)))
              (\<lambda>err. returnE (Inl (json_response 403 (error_body ''Invalid token'')))))"

definition authenticateToken :: "env \<Rightarrow> request \<Rightarrow> (jsobject \<Rightarrow> response io) \<Rightarrow> response io" where
  "authenticateToken e req next =
     bindE (authenticate e req)
       (\<lambda>r. case r of Inl res \<Rightarrow> returnE res | Inr user \<Rightarrow> next user)"

text \<open>Lifting a library call that may throw.\<close>

definition liftE :: "js_error + 'a \<Rightarrow> 'a io" where
  "liftE r = (case r of Inl err \<Rightarrow> throwE err | Inr x \<Rightarrow> returnE x)"

subsection \<open>Auth routes\<close>

definition token_and_user :: "env \<Rightarrow> jsobject \<Rightarrow> json" where
  "token_and_user e user =
     (let token = jwt_sign e (obj_literal [(''id'', obj_get user ''id''), (''email'', obj_get user ''Email'')])
                    (jwt_secret e)
      in JObj (obj_literal
           [(''token'', Some (JStr token)),
            (''user'', Some (JObj (obj_literal
               [(''id'', obj_get user ''id''),
                (''email'', obj_get user ''Email''),
                (''name'', obj_get user ''Name''),
                (''role'', obj_get user ''Role'')])))]))"

definition register_body :: "env \<Rightarrow> request \<Rightarrow> response io" where
  "register_body e req =
     (let email = obj_get (req_body req) ''email'';
          password = obj_get (req_body req) ''password'';
          name = obj_get (req_body req) ''name''
      in bindE (findRecordByField e USERS ''Email'' (template e email))
           (\<lambda>existingUser.
              if existingUser \<noteq> None
              then returnE (json_response 400 (error_body ''User already exists''))
              else
                bindE (liftE (bcrypt_hash e password))
                  (\<lambda>hashedPassword.
                     bindE (createRecord e USERS
                              (obj_literal
                                 [(''Email'', email),
                                  (''Password'', Some (JStr hashedPassword)),
                                  (''Name'', name),
                                  (''Role'', Some (JStr ''staff'')),
                                  (''CreatedAt'', Some (JStr (now_iso e))),
                                  (''TotalScans'', Some (JNum 0)),
                                  (''LastActive'', Some (JStr (now_iso e)))]))
                       (\<lambda>user. returnE (json_response 200 (token_and_user e user))))))"

definition register :: "env \<Rightarrow> request \<Rightarrow> response io" where
  "register e req = try_catch_500 (Some ''Registration error:'') (register_body e req)"

definition login_body :: "env \<Rightarrow> request \<Rightarrow> response io" where
  "login_body e req =
     (let email = obj_get (req_body req) ''email'';
          password = obj_get (req_body req) ''password''
      in bindE (findRecordByField e USERS ''Email'' (template e email))
           (\<lambda>user. case user of
              None \<Rightarrow> returnE (json_response 401 (error_body ''Invalid credentials''))
            | Some u \<Rightarrow>
                bindE (liftE (bcrypt_compare e password (obj_get u ''Password'')))
                  (\<lambda>validPassword.
                     if \<not> validPassword
                     then returnE (json_response 401 (error_body ''Invalid credentials''))
                     else
                       bindE (updateRecord e USERS (obj_get u ''id'')
                                (obj_literal [(''LastActive'', Some (JStr (now_iso e)))]))
                         (\<lambda>_. returnE (json_response 200 (token_and_user e u))))))"

definition login :: "env \<Rightarrow> request \<Rightarrow> response io" where
  "login e req = try_catch_500 (Some ''Login error:'') (login_body e req)"

subsection \<open>Product lookup route\<close>

text \<open>\<open>a(barcode) || b(barcode) || c(barcode)\<close> over the three providers.\<close>

definition lookup_all :: "env \<Rightarrow> json option \<Rightarrow> jsobject option" where
  "lookup_all e barcode =
     (case lookupOpenFoodFacts e barcode of
        Some d \<Rightarrow> Some d
      | None \<Rightarrow>
          (case lookupUPCItemDB e barcode of
             Some d \<Rightarrow> Some d
           | None \<Rightarrow> lookupBarcodeLookup e barcode))"

definition lookup_body :: "env \<Rightarrow> request \<Rightarrow> response io" where
  "lookup_body e req =
     (let barcode = obj_get (req_body req) ''barcode'';
          provider = obj_get (req_body req) ''provider'';
          productData =
            (if provider = Some (JStr ''openFood'') then lookupOpenFoodFacts e barcode
             else if provider = Some (JStr ''upcItemDB'') then lookupUPCItemDB e barcode
             else if provider = Some (JStr ''barcodeLookup'') then lookupBarcodeLookup e barcode
             else if provider = Some (JStr ''all'') then lookup_all e barcode
             else lookupOpenFoodFacts e barcode)
      in case productData of
           Some d \<Rightarrow>
             returnE (json_response 200 (JObj [(''success'', JBool True), (''data'', JObj d)]))
         | None \<Rightarrow>
             returnE (json_response 200
               (JObj [(''success'', JBool False), (''message'', JStr ''Product not found'')])))"

definition lookup :: "env \<Rightarrow> request \<Rightarrow> jsobject \<Rightarrow> response io" where
  "lookup e req user = try_catch_500 None (lookup_body e req)"

subsection \<open>Product routes\<close>

text \<open>A destructured query parameter with a default: \<open>const { page = 1 } = req.query\<close>.\<close>

definition with_default :: "json option \<Rightarrow> json \<Rightarrow> json" where
  "with_default x d = (case x of None \<Rightarrow> d | Some v \<Rightarrow> v)"

text \<open>
  The formula strings of \<open>GET /api/products\<close>, as the template literals build them.
\<close>

definition products_filters :: "env \<Rightarrow> request \<Rightarrow> string list" where
  "products_filters e req =
     (let search = obj_get (req_query req) ''search'';
          status_q = obj_get (req_query req) ''status'';
          category = obj_get (req_query req) ''category''
      in (if truthy search
          then [''OR(SEARCH('' @ [CHR 0x27] @ template e search @ [CHR 0x27] @ '', LOWER({Name})), SEARCH(''
                @ [CHR 0x27] @ template e search @ [CHR 0x27] @ '', {Barcode}))'']
          else [])
         @ (if truthy status_q
            then [''{Status} = '' @ [CHR 0x27] @ template e status_q @ [CHR 0x27]]
            else [])
         @ (if truthy category
            then [''{Category} = '' @ [CHR 0x27] @ template e category @ [CHR 0x27]]
            else []))"

definition products_filterFormula :: "string list \<Rightarrow> string" where
  "products_filterFormula filters =
     (if length filters > 0
      then (if length filters > 1 then ''AND('' @ join '', '' filters @ '')'' else hd filters)
      else [])"

text \<open>
  \<open>GET /api/products\<close>. The formula is built in the variable \<open>filterFormula\<close>, but the
  options of \<open>select\<close> are written with the shorthand property \<open>filterByFormula\<close>,
  which reads a variable of that name. The file declares none (every other
  \<open>filterByFormula\<close> in it is a property key with a value), so evaluating the
  argument of \<open>select\<close> throws a \<open>ReferenceError\<close> before any query is sent, whatever
  the request is.
\<close>

definition getProducts_body :: "env \<Rightarrow> request \<Rightarrow> response io" where
  "getProducts_body e req =
     (let page = with_default (obj_get (req_query req) ''page'') (JNum 1);
          limit = with_default (obj_get (req_query req) ''limit'') (JNum 50);
          filters = products_filters e req;
          filterFormula = products_filterFormula filters
      in throwE (JsError ''ReferenceError'' ''filterByFormula is not defined''))"

definition getProducts :: "env \<Rightarrow> request \<Rightarrow> jsobject \<Rightarrow> response io" where
  "getProducts e req user = try_catch_500 (Some ''Get products error:'') (getProducts_body e req)"

definition getProduct_body :: "env \<Rightarrow> request \<Rightarrow> response io" where
  "getProduct_body e req =
     bindE (findRecordByField e PRODUCTS ''Barcode'' (param_barcode req))
       (\<lambda>product. case product of
          None \<Rightarrow> returnE (json_response 404 (error_body ''Product not found''))
        | Some p \<Rightarrow> returnE (json_response 200 (JObj p)))"

definition getProduct :: "env \<Rightarrow> request \<Rightarrow> jsobject \<Rightarrow> response io" where
  "getProduct e req user = try_catch_500 None (getProduct_body e req)"

text \<open>\<open>parseFloat(x) || d\<close> and \<open>parseInt(x) || d\<close>: \<open>NaN\<close> and 0 give \<open>d\<close>.\<close>

definition number_or :: "rat option \<Rightarrow> rat \<Rightarrow> json" where
  "number_or x d = (case x of None \<Rightarrow> JNum d | Some q \<Rightarrow> if q = 0 then JNum d else JNum q)"

text \<open>
  \<open>v + 1\<close>, for the value \<open>v\<close> of \<open>req.user.TotalScans || 0\<close>: the sum of two
  numbers, rounded to a double; a string with \<open>1\<close> appended when \<open>v\<close> is not a
  number, a boolean or \<open>null\<close>.
\<close>

fun plus_one :: "env \<Rightarrow> json \<Rightarrow> json" where
  "plus_one e (JNum n) = JNum (double_round (n + 1))"
| "plus_one e (JStr s) = JStr (s @ ''1'')"
| "plus_one e (JBool b) = JNum ((if b then 1 else 0) + 1)"
| "plus_one e JNull = JNum 1"
| "plus_one e v = JStr (String_of e v @ ''1'')"

text \<open>The object given to \<open>createRecord\<close> for a new product.\<close>

definition new_product_fields :: "env \<Rightarrow> jsobject \<Rightarrow> jsobject" where
  "new_product_fields e productData =
     obj_literal
       ([(''Barcode'', obj_get productData ''barcode''),
         (''Name'', obj_get productData ''name''),
         (''Brand'', Some (js_or (obj_get productData ''brand'') (JStr []))),
         (''Category'', Some (js_or (obj_get productData ''category'') (JStr []))),
         (''Description'', Some (js_or (obj_get productData ''description'') (JStr []))),
         (''Price'', Some (number_or (parseFloat e (obj_get productData ''price'')) 0)),
         (''Cost'', Some (number_or (parseFloat e (obj_get productData ''cost'')) 0)),
         (''Weight'', Some (js_or (obj_get productData ''weight'') (JStr []))),
         (''Dimensions'', Some (js_or (obj_get productData ''dimensions'') (JStr []))),
         (''Quantity'', Some (number_or (parseInt e (obj_get productData ''quantity'')) 1)),
         (''Location'', Some (js_or (obj_get productData ''location'') (JStr []))),
         (''Condition'', Some (js_or (obj_get productData ''condition'') (JStr ''good''))),
         (''Status'', Some (js_or (obj_get productData ''status'') (JStr ''pending''))),
         (''Images'', Some (js_or (obj_get productData ''images'') (JArr []))),
         (''Source'', Some (js_or (obj_get productData ''source'') (JStr ''Manual''))),
         (''ApiData'', Some (JStr (JSON_stringify e (js_or (obj_get productData ''apiData'') (JObj []))))),
         (''Notes'', Some (js_or (obj_get productData ''notes'') (JStr [])))]
        @ spread productData)"

text \<open>
  The objects that \<open>POST /api/products\<close> builds: \<open>productData\<close>, the fields of the
  scan history record (\<open>existing\<close> says whether \<open>existingProduct\<close> is truthy), and
  the fields written to the user.
\<close>

definition product_data :: "env \<Rightarrow> request \<Rightarrow> jsobject \<Rightarrow> jsobject" where
  "product_data e req user =
     obj_literal
       (spread (req_body req)
        @ [(''ScannedBy'', Some (JArr [elem (obj_get user ''id'')])),
           (''ScannedByEmail'', obj_get user ''Email''),
           (''LastModified'', Some (JStr (now_iso e)))])"

definition scan_history_fields :: "env \<Rightarrow> jsobject \<Rightarrow> jsobject \<Rightarrow> bool \<Rightarrow> jsobject" where
  "scan_history_fields e user product existing =
     obj_literal
       [(''User'', Some (JArr [elem (obj_get user ''id'')])),
        (''Product'', Some (JArr [elem (obj_get product ''id'')])),
        (''Barcode'', obj_get product ''Barcode''),
        (''Action'', Some (JStr (if existing then ''update'' else ''scan''))),
        (''Timestamp'', Some (JStr (now_iso e))),
        (''UserEmail'', obj_get user ''Email''),
        (''ProductName'', obj_get product ''Name'')]"

definition scan_count_fields :: "env \<Rightarrow> jsobject \<Rightarrow> jsobject" where
  "scan_count_fields e user =
     obj_literal
       [(''TotalScans'', Some (plus_one e (js_or (obj_get user ''TotalScans'') (JNum 0)))),
        (''LastActive'', Some (JStr (now_iso e)))]"

text \<open>The \<open>if (existingProduct) ... else ...\<close> that updates or creates the product.\<close>

definition save_product :: "env \<Rightarrow> request \<Rightarrow> jsobject \<Rightarrow> jsobject option \<Rightarrow> jsobject io" where
  "save_product e req user existingProduct =
     (case existingProduct of
        Some existing \<Rightarrow>
          updateRecord e PRODUCTS (obj_get existing ''id'') (product_data e req user)
      | None \<Rightarrow>
          createRecord e PRODUCTS
            (new_product_fields e
               (obj_put ''ScannedAt'' (Some (JStr (now_iso e))) (product_data e req user))))"

definition postProducts_body :: "env \<Rightarrow> request \<Rightarrow> jsobject \<Rightarrow> response io" where
  "postProducts_body e req user =
     bindE (findRecordByField e PRODUCTS ''Barcode'' (template e (obj_get (req_body req) ''barcode'')))
       (\<lambda>existingProduct.
          bindE (save_product e req user existingProduct)
            (\<lambda>product.
               bindE (createRecord e SCAN_HISTORY
                        (scan_history_fields e user product (existingProduct \<noteq> None)))
                 (\<lambda>_.
                    bindE (updateRecord e USERS (obj_get user ''id'') (scan_count_fields e user))
                      (\<lambda>_. returnE (json_response 200 (JObj product))))))"

definition postProducts :: "env \<Rightarrow> request \<Rightarrow> jsobject \<Rightarrow> response io" where
  "postProducts e req user =
     try_catch_500 (Some ''Create/Update product error:'') (postProducts_body e req user)"

text \<open>
  \<open>POST /api/products/:barcode/image\<close>. \<open>existingImages.push\<close> needs an array:
  \<open>product.Images || []\<close> is one unless the cell holds some other truthy value.
\<close>

definition uploadImage_body :: "env \<Rightarrow> request \<Rightarrow> response io" where
  "uploadImage_body e req =
     bindE (findRecordByField e PRODUCTS ''Barcode'' (param_barcode req))
       (\<lambda>product. case product of
          None \<Rightarrow> returnE (json_response 404 (error_body ''Product not found''))
        | Some p \<Rightarrow>
            (case file_filename req of
               None \<Rightarrow>
                 throwE (JsError ''TypeError''
                   (''Cannot read properties of undefined (reading '' @ [CHR 0x27] @ ''filename''
                    @ [CHR 0x27] @ '')''))
             | Some filename \<Rightarrow>
                 (let imageUrl = protocol req @ ''://'' @ host req @ ''/uploads/'' @ filename
                  in case js_or (obj_get p ''Images'') (JArr []) of
                       JArr existingImages \<Rightarrow>
                         bindE (updateRecord e PRODUCTS (obj_get p ''id'')
                                  (obj_literal
                                     [(''Images'',
                                       Some (JArr (existingImages @ [JObj [(''url'', JStr imageUrl)]])))]))
                           (\<lambda>updatedProduct.
                              returnE (json_response 200
                                (JObj [(''imageUrl'', JStr imageUrl), (''product'', JObj updatedProduct)])))
                     | _ \<Rightarrow> throwE (JsError ''TypeError'' ''existingImages.push is not a function''))))"

definition uploadImage :: "env \<Rightarrow> request \<Rightarrow> jsobject \<Rightarrow> response io" where
  "uploadImage e req user = try_catch_500 None (uploadImage_body e req)"

definition deleteProduct_body :: "env \<Rightarrow> request \<Rightarrow> jsobject \<Rightarrow> response io" where
  "deleteProduct_body e req user =
     bindE (findRecordByField e PRODUCTS ''Barcode'' (param_barcode req))
       (\<lambda>product. case product of
          None \<Rightarrow> returnE (json_response 404 (error_body ''Product not found''))
        | Some p \<Rightarrow>
            bindE (airtable_destroy PRODUCTS (obj_get p ''id''))
              (\<lambda>_.
                 bindE (createRecord e SCAN_HISTORY
                          (obj_literal
                             [(''User'', Some (JArr [elem (obj_get user ''id'')])),
                              (''Barcode'', Some (JStr (param_barcode req))),
                              (''Action'', Some (JStr ''delete'')),
                              (''Timestamp'', Some (JStr (now_iso e))),
                              (''UserEmail'', obj_get user ''Email'')]))
                   (\<lambda>_. returnE (json_response 200
                            (JObj [(''message'', JStr ''Product deleted successfully'')])))))"

definition deleteProduct :: "env \<Rightarrow> request \<Rightarrow> jsobject \<Rightarrow> response io" where
  "deleteProduct e req user = try_catch_500 None (deleteProduct_body e req user)"

subsection \<open>Statistics and history routes\<close>

text \<open>
  The loop \<open>for (const status of statuses)\<close> of \<open>GET /api/stats\<close>: one query for
  each status; \<open>statusCounts\<close> is the accumulator. The first query that throws ends it.
\<close>

fun count_statuses ::
  "env \<Rightarrow> string list \<Rightarrow> jsobject \<Rightarrow> world \<Rightarrow> (js_error + jsobject) \<times> world" where
  "count_statuses e [] statusCounts w = (Inr statusCounts, w)"
| "count_statuses e (s # statuses) statusCounts w =
     (case firstPage e PRODUCTS
             \<lparr>filterByFormula = field_equals ''Status'' s, maxRecords = None,
              sort_by = None, fields_only = Some [''Barcode'']\<rparr> w of
        (Inl err, w') \<Rightarrow> (Inl err, w')
      | (Inr records, w') \<Rightarrow>
          count_statuses e statuses
            (obj_set s (JNum (of_nat (length records))) statusCounts) w')"

text \<open>
  \<open>AND({UserEmail} = '...', {Timestamp} >= '...')\<close>, with \<open>today_iso\<close> the ISO text
  of today's midnight.
\<close>

definition scanned_today :: "env \<Rightarrow> string \<Rightarrow> airtable_record \<Rightarrow> bool" where
  "scanned_today e email r =
     (field_equals ''UserEmail'' email r
      \<and> airtable_ge e (obj_get (rec_fields r) ''Timestamp'') (today_iso e))"

definition stats_body :: "env \<Rightarrow> request \<Rightarrow> jsobject \<Rightarrow> response io" where
  "stats_body e req user =
     (let email = template e (obj_get user ''Email'')
      in bindE (firstPage e SCAN_HISTORY
                  \<lparr>filterByFormula = scanned_today e email, maxRecords = None,
                   sort_by = None, fields_only = None\<rparr>)
           (\<lambda>todayScansRecords.
              bindE (firstPage e PRODUCTS
                       \<lparr>filterByFormula = no_formula, maxRecords = None,
                        sort_by = None, fields_only = Some [''Barcode'']\<rparr>)
                (\<lambda>allProductsRecords.
                   bindE (firstPage e PRODUCTS
                            \<lparr>filterByFormula = field_equals ''ScannedByEmail'' email, maxRecords = None,
                             sort_by = None, fields_only = Some [''Barcode'']\<rparr>)
                     (\<lambda>userProductsRecords.
                        bindE (count_statuses e [''pending'', ''listed'', ''sold'', ''returned''] [])
                          (\<lambda>statusCounts.
                             bindE (firstPage e SCAN_HISTORY
                                      \<lparr>filterByFormula = field_equals ''UserEmail'' email,
                                       maxRecords = Some (Some 10),
                                       sort_by = Some (''Timestamp'', True), fields_only = None\<rparr>)
                               (\<lambda>recentScansRecords.
                                  returnE (json_response 200
                                    (JObj
                                       [(''todayScans'', JNum (of_nat (length todayScansRecords))),
                                        (''totalProducts'', JNum (of_nat (length allProductsRecords))),
                                        (''userProducts'', JNum (of_nat (length userProductsRecords))),
                                        (''byStatus'',
                                         JArr (map (\<lambda>kv. JObj [(''_id'', JStr (fst kv)), (''count'', snd kv)])
                                                 statusCounts)),
                                        (''recentScans'',
                                         JArr (map (\<lambda>r. JObj (cleanRecord r)) recentScansRecords))]))))))))"

definition stats :: "env \<Rightarrow> request \<Rightarrow> jsobject \<Rightarrow> response io" where
  "stats e req user = try_catch_500 (Some ''Stats error:'') (stats_body e req user)"

text \<open>A number in a JSON body: \<open>NaN\<close> is serialised as \<open>null\<close>.\<close>

definition json_number :: "rat option \<Rightarrow> json" where
  "json_number x = (case x of None \<Rightarrow> JNull | Some q \<Rightarrow> JNum q)"

definition history_body :: "env \<Rightarrow> request \<Rightarrow> jsobject \<Rightarrow> response io" where
  "history_body e req user =
     (let page = with_default (obj_get (req_query req) ''page'') (JNum 1);
          limit = with_default (obj_get (req_query req) ''limit'') (JNum 50)
      in bindE (firstPage e SCAN_HISTORY
                  \<lparr>filterByFormula = field_equals ''UserEmail'' (template e (obj_get user ''Email'')),
                   maxRecords = Some (parseInt e (Some limit)),
                   sort_by = Some (''Timestamp'', True), fields_only = None\<rparr>)
           (\<lambda>records.
              (let history = map (\<lambda>r. JObj (cleanRecord r)) records
               in returnE (json_response 200
                    (JObj [(''history'', JArr history),
                           (''currentPage'', json_number (parseInt e (Some page))),
                           (''total'', JNum (of_nat (length history)))])))))"

definition history :: "env \<Rightarrow> request \<Rightarrow> jsobject \<Rightarrow> response io" where
  "history e req user = try_catch_500 None (history_body e req user)"

subsection \<open>Export route\<close>

text \<open>An element of an array under \<open>join\<close>: \<open>undefined\<close> and \<open>null\<close> print as nothing.\<close>

definition join_item :: "env \<Rightarrow> json option \<Rightarrow> string" where
  "join_item e x = (case x of None \<Rightarrow> [] | Some JNull \<Rightarrow> [] | Some v \<Rightarrow> template e (Some v))"

text \<open>\<open>`"${x || ''}"`\<close>.\<close>

definition quoted :: "env \<Rightarrow> json option \<Rightarrow> string" where
  "quoted e x = [CHR 0x22] @ template e (Some (js_or x (JStr []))) @ [CHR 0x22]"

definition csv_header :: string where
  "csv_header =
     join '',''
       [''Barcode'', ''Name'', ''Brand'', ''Category'', ''Price'', ''Cost'', ''Quantity'',
        ''Location'', ''Condition'', ''Status'', ''Scanned Date'']"

definition csv_row :: "env \<Rightarrow> jsobject \<Rightarrow> string" where
  "csv_row e p =
     join '',''
       [join_item e (obj_get p ''Barcode''),
        quoted e (obj_get p ''Name''),
        quoted e (obj_get p ''Brand''),
        quoted e (obj_get p ''Category''),
        join_item e (Some (js_or (obj_get p ''Price'') (JNum 0))),
        join_item e (Some (js_or (obj_get p ''Cost'') (JNum 0))),
        join_item e (Some (js_or (obj_get p ''Quantity'') (JNum 1))),
        quoted e (obj_get p ''Location''),
        join_item e (Some (js_or (obj_get p ''Condition'') (JStr []))),
        join_item e (Some (js_or (obj_get p ''Status'') (JStr []))),
        join_item e (Some (js_or (obj_get p ''ScannedAt'') (JStr [])))]"

definition exportCsv_body :: "env \<Rightarrow> request \<Rightarrow> response io" where
  "exportCsv_body e req =
     bindE (all_records e PRODUCTS
              \<lparr>filterByFormula = no_formula, maxRecords = None,
               sort_by = Some (''ScannedAt'', True), fields_only = None\<rparr>)
       (\<lambda>records.
          (let products = map cleanRecord records;
               csv = join [CHR 0x0A] (csv_header # map (csv_row e) products)
           in returnE
                \<lparr>status = 200,
                 res_headers = [(''Content-Type'', ''text/csv''),
                                (''Content-Disposition'', ''attachment; filename=inventory.csv'')],
                 res_body = JStr csv\<rparr>))"

definition exportCsv :: "env \<Rightarrow> request \<Rightarrow> jsobject \<Rightarrow> response io" where
  "exportCsv e req user = try_catch_500 None (exportCsv_body e req)"

subsection \<open>Bulk route\<close>

text \<open>
  The body of the inner \<open>try\<close> for one barcode: the provider lookups, the default
  product data, and the \<open>createRecord\<close>. No lookup in the Products table comes first.
\<close>

definition bulk_item :: "env \<Rightarrow> jsobject \<Rightarrow> json \<Rightarrow> jsobject io" where
  "bulk_item e user barcode =
     (let productData =
            (case lookup_all e (Some barcode) of
               Some d \<Rightarrow> d
             | None \<Rightarrow>
                 [(''barcode'', barcode),
                  (''name'', JStr (''Product '' @ template e (Some barcode))),
                  (''source'', JStr ''Manual'')])
      in createRecord e PRODUCTS
           (obj_literal
              [(''Barcode'', Some barcode),
               (''Name'', obj_get productData ''name''),
               (''Brand'', Some (js_or (obj_get productData ''brand'') (JStr []))),
               (''Category'', Some (js_or (obj_get productData ''category'') (JStr []))),
               (''Description'', Some (js_or (obj_get productData ''description'') (JStr []))),
               (''Price'', Some (js_or (obj_get productData ''price'') (JNum 0))),
               (''Weight'', Some (js_or (obj_get productData ''weight'') (JStr []))),
               (''Dimensions'', Some (js_or (obj_get productData ''dimensions'') (JStr []))),
               (''Source'', obj_get productData ''source''),
               (''Status'', Some (JStr ''pending'')),
               (''Condition'', Some (JStr ''good'')),
               (''Quantity'', Some (JNum 1)),
               (''ScannedBy'', Some (JArr [elem (obj_get user ''id'')])),
               (''ScannedByEmail'', obj_get user ''Email''),
               (''ScannedAt'', Some (JStr (now_iso e))),
               (''ApiData'', Some (JStr (JSON_stringify e (JObj productData))))]))"

text \<open>
  The loop \<open>for (const barcode of barcodes)\<close> with its \<open>try\<close>/\<open>catch\<close> for each
  item; \<open>results\<close> and \<open>errors\<close> are the two arrays.
\<close>

fun bulk_loop ::
  "env \<Rightarrow> jsobject \<Rightarrow> json list \<Rightarrow> json list \<Rightarrow> json list \<Rightarrow> world \<Rightarrow>
   (json list \<times> json list) \<times> world" where
  "bulk_loop e user [] results errors w = ((results, errors), w)"
| "bulk_loop e user (barcode # barcodes) results errors w =
     (case bulk_item e user barcode w of
        (Inr product, w') \<Rightarrow> bulk_loop e user barcodes (results @ [JObj product]) errors w'
      | (Inl error, w') \<Rightarrow>
          bulk_loop e user barcodes results
            (errors @ [JObj [(''barcode'', barcode), (''error'', JStr (message error))]]) w')"

text \<open>
  What \<open>for ... of\<close> iterates: the elements of an array, the characters of a string;
  anything else is not iterable.
\<close>

definition iterate :: "json option \<Rightarrow> js_error + json list" where
  "iterate x =
     (case x of
        Some (JArr xs) \<Rightarrow> Inr xs
      | Some (JStr s) \<Rightarrow> Inr (map (\<lambda>c. JStr [c]) s)
      | _ \<Rightarrow> Inl (JsError ''TypeError'' ''barcodes is not iterable''))"

definition bulk_body :: "env \<Rightarrow> request \<Rightarrow> jsobject \<Rightarrow> response io" where
  "bulk_body e req user =
     bindE (liftE (iterate (obj_get (req_body req) ''barcodes'')))
       (\<lambda>barcodes w.
          (case bulk_loop e user barcodes [] [] w of
             ((results, errors), w') \<Rightarrow>
               (Inr (json_response 200
                  (JObj [(''success'', JNum (of_nat (length results))),
                         (''failed'', JNum (of_nat (length errors))),
                         (''results'', JArr results),
                         (''errors'', JArr errors)])), w')))"

definition bulk :: "env \<Rightarrow> request \<Rightarrow> jsobject \<Rightarrow> response io" where
  "bulk e req user = try_catch_500 None (bulk_body e req user)"

subsection \<open>Settings routes\<close>

definition getSettings_body :: "env \<Rightarrow> request \<Rightarrow> jsobject \<Rightarrow> response io" where
  "getSettings_body e req user =
     bindE (firstPage e SETTINGS
              \<lparr>filterByFormula = field_equals ''UserEmail'' (template e (obj_get user ''Email'')),
               maxRecords = Some (Some 1), sort_by = None, fields_only = None\<rparr>)
       (\<lambda>records. case records of
          r # rs \<Rightarrow> returnE (json_response 200 (JObj (cleanRecord r)))
        | [] \<Rightarrow>
            returnE (json_response 200
              (JObj [(''apiProvider'', JStr ''openFood''),
                     (''scanSound'', JBool True),
                     (''autoSave'', JBool False),
                     (''defaultCondition'', JStr ''good''),
                     (''defaultStatus'', JStr ''pending'')])))"

definition getSettings :: "env \<Rightarrow> request \<Rightarrow> jsobject \<Rightarrow> response io" where
  "getSettings e req user = try_catch_500 None (getSettings_body e req user)"

definition postSettings_body :: "env \<Rightarrow> request \<Rightarrow> jsobject \<Rightarrow> response io" where
  "postSettings_body e req user =
     bindE (findRecordByField e SETTINGS ''UserEmail'' (template e (obj_get user ''Email'')))
       (\<lambda>existingSettings.
          (let settingsData =
                 obj_literal
                   (spread (req_body req)
                    @ [(''User'', Some (JArr [elem (obj_get user ''id'')])),
                       (''UserEmail'', obj_get user ''Email''),
                       (''UpdatedAt'', Some (JStr (now_iso e)))])
           in bindE (case existingSettings of
                       Some existing \<Rightarrow> updateRecord e SETTINGS (obj_get existing ''id'') settingsData
                     | None \<Rightarrow> createRecord e SETTINGS settingsData)
                (\<lambda>settings. returnE (json_response 200 (JObj settings)))))"

definition postSettings :: "env \<Rightarrow> request \<Rightarrow> jsobject \<Rightarrow> response io" where
  "postSettings e req user = try_catch_500 None (postSettings_body e req user)"

subsection \<open>The routes of the application\<close>

datatype route =
    PostRegister
  | PostLogin
  | PostLookup
  | GetProducts
  | GetProduct
  | PostProducts
  | PostImage
  | DeleteProduct
  | GetStats
  | GetHistory
  | GetExportCsv
  | PostBulk
  | GetSettings
  | PostSettings

text \<open>
  The handler registered for each route. Those behind \<open>authenticateToken\<close> read
  \<open>req.user\<close>; the two auth routes have no user. (The image route also has
  \<open>upload.single('image')\<close> before its handler, which is where \<open>req.file\<close> comes
  from.)
\<close>

fun handler :: "env \<Rightarrow> route \<Rightarrow> request \<Rightarrow> jsobject \<Rightarrow> response io" where
  "handler e PostLookup req user = lookup e req user"
| "handler e GetProducts req user = getProducts e req user"
| "handler e GetProduct req user = getProduct e req user"
| "handler e PostProducts req user = postProducts e req user"
| "handler e PostImage req user = uploadImage e req user"
| "handler e DeleteProduct req user = deleteProduct e req user"
| "handler e GetStats req user = stats e req user"
| "handler e GetHistory req user = history e req user"
| "handler e GetExportCsv req user = exportCsv e req user"
| "handler e PostBulk req user = bulk e req user"
| "handler e GetSettings req user = getSettings e req user"
| "handler e PostSettings req user = postSettings e req user"
| "handler e PostRegister req user = register e req"
| "handler e PostLogin req user = login e req"

text \<open>
  \<open>app.post('/api/auth/register', handler)\<close> and \<open>app.post('/api/auth/login', handler)\<close>
  have no middleware; every other route is \<open>app.METHOD(path, authenticateToken, handler)\<close>.
\<close>

fun app :: "env \<Rightarrow> route \<Rightarrow> request \<Rightarrow> response io" where
  "app e PostRegister req = register e req"
| "app e PostLogin req = login e req"
| "app e r req = authenticateToken e req (handler e r req)"

text \<open>
  The same table read apart: for each route, the body of its handler's \<open>try\<close> block
  and the text that its \<open>catch\<close> block gives to \<open>console.error\<close>, if it has one.
\<close>

fun handler_body :: "env \<Rightarrow> route \<Rightarrow> request \<Rightarrow> jsobject \<Rightarrow> response io" where
  "handler_body e PostRegister req user = register_body e req"
| "handler_body e PostLogin req user = login_body e req"
| "handler_body e PostLookup req user = lookup_body e req"
| "handler_body e GetProducts req user = getProducts_body e req"
| "handler_body e GetProduct req user = getProduct_body e req"
| "handler_body e PostProducts req user = postProducts_body e req user"
| "handler_body e PostImage req user = uploadImage_body e req"
| "handler_body e DeleteProduct req user = deleteProduct_body e req user"
| "handler_body e GetStats req user = stats_body e req user"
| "handler_body e GetHistory req user = history_body e req user"
| "handler_body e GetExportCsv req user = exportCsv_body e req"
| "handler_body e PostBulk req user = bulk_body e req user"
| "handler_body e GetSettings req user = getSettings_body e req user"
| "handler_body e PostSettings req user = postSettings_body e req user"

fun handler_label :: "route \<Rightarrow> string option" where
  "handler_label PostRegister = Some ''Registration error:''"
| "handler_label PostLogin = Some ''Login error:''"
| "handler_label GetProducts = Some ''Get products error:''"
| "handler_label PostProducts = Some ''Create/Update product error:''"
| "handler_label GetStats = Some ''Stats error:''"
| "handler_label r = None"



section \<open>What a run shows of the calls to Airtable\<close>

text \<open>
  The calls to Airtable made between two worlds, and the messages of those among them
  that failed, for the operations that \<open>K\<close> selects.
\<close>

definition new_calls :: "world \<Rightarrow> world \<Rightarrow> (airtable_op \<times> table \<times> string option) list" where
  "new_calls w w' = drop (length (calls w)) (calls w')"

definition failures ::
  "(airtable_op \<Rightarrow> bool) \<Rightarrow> (airtable_op \<times> table \<times> string option) list \<Rightarrow> string list" where
  "failures K cs =
     concat (map (\<lambda>c. case snd (snd c) of None \<Rightarrow> [] | Some m \<Rightarrow> if K (fst c) then [m] else []) cs)"

definition is_write :: "airtable_op \<Rightarrow> bool" where
  "is_write op = (op \<noteq> Select)"

definition any_op :: "airtable_op \<Rightarrow> bool" where
  "any_op op = True"

text \<open>
  The outcomes that the world has scheduled for the next \<open>n\<close> calls, and the entries
  of the \<open>errors\<close> array of the bulk route for barcodes paired with the outcomes of
  their \<open>createRecord\<close>.
\<close>

fun scheduled :: "nat \<Rightarrow> string option list \<Rightarrow> string option list" where
  "scheduled 0 fs = []"
| "scheduled (Suc n) fs = (case fs of [] \<Rightarrow> None | f # rest \<Rightarrow> f) # scheduled n (tl fs)"

fun bulk_errors :: "(json \<times> string option) list \<Rightarrow> json list" where
  "bulk_errors [] = []"
| "bulk_errors ((barcode, None) # rest) = bulk_errors rest"
| "bulk_errors ((barcode, Some m) # rest) =
     JObj [(''barcode'', barcode), (''error'', JStr m)] # bulk_errors rest"

text \<open>
  A computation escalates the failures of the operations in \<open>K\<close> when it only adds to
  the list of calls and every failed call of such an operation makes it throw the error
  of that call.
\<close>

definition escalates :: "(airtable_op \<Rightarrow> bool) \<Rightarrow> 'a io \<Rightarrow> bool" where
  "escalates K c =
     (\<forall>w. \<exists>new. calls (snd (c w)) = calls w @ new
             \<and> (\<forall>op t m. (op, t, Some m) \<in> set new \<and> K op \<longrightarrow> fst (c w) = Inl (JsError ''Error'' m)))"

section \<open>Example data\<close>

text \<open>A product whose last sync from WooCommerce was at millisecond 90000.\<close>

definition demo_record :: product_record where
  "demo_record =
     \<lparr>record_id = ''rec1'', Product_Name = ''Widget'', SKU = ''W-1'',
      Stock_Quantity = JNum 5, Last_WooCommerce_Sync = Some 90000\<rparr>"

text \<open>A webhook endpoint that accepts every request.\<close>

definition demo_fetch :: "http_request \<Rightarrow> fetch_result" where
  "demo_fetch req = FetchOk (JObj [(''ok'', JBool True)])"

text \<open>
  An environment for the server: a clock that stands still, a toy password hash and a
  toy token (like \<open>bcryptjs\<close>, the hash functions throw \<open>Illegal arguments\<close> when
  an argument is not a string), providers that know no barcode, and an Airtable that
  numbers its new records and leaves the order of records as it is.
\<close>

definition demo_env :: env where
  "demo_env =
     \<lparr>now_iso = ''2025-01-01T10:00:00.000Z'',
      today_iso = ''2025-01-01T00:00:00.000Z'',
      String_of = (\<lambda>v. ''[value]''),
      JSON_stringify = (\<lambda>v. ''[json]''),
      parseInt = (\<lambda>x. case x of Some (JNum q) \<Rightarrow> Some (of_int \<lfloor>q\<rfloor>) | _ \<Rightarrow> None),
      parseFloat = (\<lambda>x. case x of Some (JNum q) \<Rightarrow> Some q | _ \<Rightarrow> None),
      bcrypt_hash = (\<lambda>p. case p of Some (JStr s) \<Rightarrow> Inr (''hash:'' @ s)
                          | _ \<Rightarrow> Inl (JsError ''Error'' (''Illegal arguments: '' @ typeof p))),
      bcrypt_compare = (\<lambda>p h. case p of
                            Some (JStr s) \<Rightarrow>
                              (case h of Some (JStr hs) \<Rightarrow> Inr (hs = ''hash:'' @ s)
                               | _ \<Rightarrow> Inl (JsError ''Error''
                                             (''Illegal arguments: '' @ typeof p @ '', '' @ typeof h)))
                          | _ \<Rightarrow> Inl (JsError ''Error''
                                        (''Illegal arguments: '' @ typeof p @ '', '' @ typeof h))),
      JWT_SECRET = None,
      jwt_sign = (\<lambda>payload secret. ''signed-token''),
      jwt_verify = (\<lambda>token secret.
                      if token = ''good-token''
                      then Some [(''id'', JStr ''recU1''), (''email'', JStr ''ann@example.com'')]
                      else if token = ''stale-token''
                      then Some [(''id'', JStr ''recU9''), (''email'', JStr ''gone@example.com'')]
                      else None),
      lookupOpenFoodFacts = (\<lambda>barcode. None),
      lookupUPCItemDB = (\<lambda>barcode. None),
      lookupBarcodeLookup = (\<lambda>barcode. None),
      new_record_id = (\<lambda>n. ''recNew'' @ replicate n (CHR ''+'')),
      airtable_order = (\<lambda>fieldName descending records. records),
      airtable_ge = (\<lambda>cell text. True)\<rparr>"

text \<open>A base with one user and one product, and no failure ahead.\<close>

definition demo_user_record :: airtable_record where
  "demo_user_record =
     \<lparr>rec_id = ''recU1'',
      rec_fields = [(''Email'', JStr ''ann@example.com''), (''Password'', JStr ''hash:secret''),
                    (''Name'', JStr ''Ann''), (''Role'', JStr ''staff''), (''TotalScans'', JNum 4)]\<rparr>"

definition demo_product_record :: airtable_record where
  "demo_product_record =
     \<lparr>rec_id = ''recP1'',
      rec_fields = [(''Barcode'', JStr ''123''), (''Name'', JStr ''Widget'')]\<rparr>"

definition demo_world :: world where
  "demo_world =
     \<lparr>Users = [demo_user_record], Products = [demo_product_record], ScanHistory = [],
      Settings = [], faults = [], calls = [], console = [], next_id = 0\<rparr>"



text \<open>\<open>req.user\<close> for that user, as \<open>authenticateToken\<close> sets it.\<close>

definition demo_user :: jsobject where
  "demo_user = cleanRecord demo_user_record"

text \<open>A request with a given header, body and \<open>:barcode\<close>.\<close>

definition demo_request :: "string option \<Rightarrow> jsobject \<Rightarrow> string \<Rightarrow> request" where
  "demo_request auth b barcode =
     \<lparr>authorization = auth, req_body = b, req_query = [], param_barcode = barcode,
      protocol = ''https'', host = ''example.com'', file_filename = None\<rparr>"


section \<open>The sync script: suppression and the webhook request\<close>

lemma shouldSync_False_iff:
  "trigger \<noteq> ''create'' \<Longrightarrow>
   (\<not> shouldSync trigger now record) =
     (\<exists>t. Last_WooCommerce_Sync record = Some t \<and> now - t < 60000)"
  by (auto simp: shouldSync_def SYNC_THRESHOLD_MINUTES_def Let_def split: option.splits)

lemma shouldSync_create: "shouldSync ''create'' now record"
  by (simp add: shouldSync_def)

lemma selectRecordAsync_id:
  "selectRecordAsync table rid = Some r \<Longrightarrow> record_id r = rid"
  by (auto simp: selectRecordAsync_def find_Some_iff)

lemma requests_found:
  assumes "recordId cfg = Some rid" and "rid \<noteq> []" and "selectRecordAsync table rid = Some r"
  shows "requests (run_script fetch b now table cfg) =
           (if shouldSync (triggerType cfg) now r
            then [webhook_request (webhookData (triggerType cfg) b r)] else [])"
  using assms by (simp add: run_script_def Let_def split: fetch_result.splits)

lemma webhookData_shape:
  "webhookData trigger b r =
     JObj [(''type'', JStr (''record.'' @ trigger @ ''d'')),
           (''base'', JObj [(''id'', JStr b)]),
           (''record'',
            JObj ((''id'', JStr (record_id r))
                  # (if trigger \<noteq> ''delete''
                     then [(''fields'',
                            JObj [(''Product Name'', JStr (Product_Name r)),
                                  (''SKU'', JStr (SKU r)),
                                  (''Stock Quantity'', Stock_Quantity r)])]
                     else [])))]"
  by (simp add: webhookData_def Let_def)

text \<open>
  C1, as stated, fails: a \<open>create\<close> event is forwarded although the record's
  \<open>Last WooCommerce Sync\<close> is set and only 10 seconds old. \<open>shouldSync\<close> returns
  \<open>true\<close> for it and the script sends the webhook request.
\<close>

theorem create_forwarded_despite_recent_sync:
  "Last_WooCommerce_Sync demo_record = Some 90000 \<and> (100000::int) - 90000 < 60000
   \<and> shouldSync ''create'' 100000 demo_record
   \<and> length (requests (run_script demo_fetch ''app1'' 100000 [demo_record]
        \<lparr>recordId = Some ''rec1'', triggerType = ''create''\<rparr>)) = 1"
  by (simp add: demo_record_def shouldSync_def run_script_def selectRecordAsync_def
      demo_fetch_def Let_def)

text \<open>
  C1, amended. For an event whose record is found: when the trigger type is \<open>update\<close>,
  \<open>shouldSync\<close> returns \<open>false\<close> exactly when \<open>Last WooCommerce Sync\<close> is set and
  less than one minute (60000 ms) before the current time; the script sends no webhook
  request exactly in that case, and one request otherwise. When the trigger type is
  \<open>create\<close>, \<open>shouldSync\<close> returns \<open>true\<close> whatever the timestamp is, and one
  request is sent.
\<close>

theorem update_suppressed_iff_recent_sync:
  assumes "recordId cfg = Some rid" and "rid \<noteq> []" and "selectRecordAsync table rid = Some r"
  shows "(triggerType cfg = ''update'' \<longrightarrow>
            (\<not> shouldSync ''update'' now r) = (\<exists>t. Last_WooCommerce_Sync r = Some t \<and> now - t < 60000)
            \<and> (requests (run_script fetch b now table cfg) = []) = (\<not> shouldSync ''update'' now r)
            \<and> (shouldSync ''update'' now r \<longrightarrow> length (requests (run_script fetch b now table cfg)) = 1))
       \<and> (triggerType cfg = ''create'' \<longrightarrow>
            shouldSync ''create'' now r \<and> length (requests (run_script fetch b now table cfg)) = 1)"
proof -
  have sent: "requests (run_script fetch b now table cfg) =
           (if shouldSync (triggerType cfg) now r
            then [webhook_request (webhookData (triggerType cfg) b r)] else [])"
    by (rule requests_found [OF assms])
  have upd: "(\<not> shouldSync ''update'' now r) = (\<exists>t. Last_WooCommerce_Sync r = Some t \<and> now - t < 60000)"
    by (rule shouldSync_False_iff) simp
  have cre: "shouldSync ''create'' now r"
    by (rule shouldSync_create)
  show ?thesis
    using sent upd cre by (cases "shouldSync ''update'' now r") simp_all
qed

theorem update_suppressed_iff_recent_sync_witness:
  "recordId \<lparr>recordId = Some ''rec1'', triggerType = ''update''\<rparr> = Some ''rec1''
   \<and> selectRecordAsync [demo_record] ''rec1'' = Some demo_record
   \<and> (\<not> shouldSync ''update'' 100000 demo_record)
   \<and> requests (run_script demo_fetch ''app1'' 100000 [demo_record]
        \<lparr>recordId = Some ''rec1'', triggerType = ''update''\<rparr>) = []"
  using update_suppressed_iff_recent_sync
      [of "\<lparr>recordId = Some ''rec1'', triggerType = ''update''\<rparr>" "''rec1''"
      "[demo_record]" demo_record 100000 demo_fetch "''app1''"]
  by (simp add: selectRecordAsync_def demo_record_def)

text \<open>
  C2. For an event whose record is found and that is not suppressed, the script calls
  \<open>fetch\<close> exactly once: a POST to the webhook URL with the headers \<open>Content-Type\<close>
  and \<open>X-Airtable-Signature\<close> (the shared secret), whose body is the envelope with
  \<open>type = 'record.' + triggerType + 'd'\<close>, \<open>base.id\<close>, \<open>record.id\<close> equal to the
  triggering record id, and \<open>record.fields\<close> (Product Name, SKU, Stock Quantity)
  present exactly when the trigger type is not \<open>delete\<close>.
\<close>

theorem webhook_post_envelope:
  assumes "recordId cfg = Some rid" and "rid \<noteq> []" and "selectRecordAsync table rid = Some r"
    and "shouldSync (triggerType cfg) now r"
  shows "requests (run_script fetch b now table cfg) =
           [\<lparr>url = WEBHOOK_URL, http_method = ''POST'',
             headers = [(''Content-Type'', ''application/json''),
                        (''X-Airtable-Signature'', WEBHOOK_SECRET)],
             body =
               JObj [(''type'', JStr (''record.'' @ triggerType cfg @ ''d'')),
                     (''base'', JObj [(''id'', JStr b)]),
                     (''record'',
                      JObj ((''id'', JStr rid)
                            # (if triggerType cfg \<noteq> ''delete''
                               then [(''fields'',
                                      JObj [(''Product Name'', JStr (Product_Name r)),
                                            (''SKU'', JStr (SKU r)),
                                            (''Stock Quantity'', Stock_Quantity r)])]
                               else [])))]\<rparr>]"
proof -
  have "record_id r = rid"
    using assms(3) by (rule selectRecordAsync_id)
  then show ?thesis
    using requests_found [OF assms(1-3), of fetch b now] assms(4)
    by (simp add: webhook_request_def webhookData_shape)
qed

theorem webhook_post_envelope_witness:
  "selectRecordAsync [demo_record] ''rec1'' = Some demo_record
   \<and> shouldSync ''update'' 200000 demo_record
   \<and> requests (run_script demo_fetch ''app1'' 200000 [demo_record]
       \<lparr>recordId = Some ''rec1'', triggerType = ''update''\<rparr>) =
     [\<lparr>url = ''https://webhook.4more.ca/webhook/airtable'', http_method = ''POST'',
       headers = [(''Content-Type'', ''application/json''),
                  (''X-Airtable-Signature'', ''your_webhook_secret'')],
       body =
         JObj [(''type'', JStr ''record.updated''),
               (''base'', JObj [(''id'', JStr ''app1'')]),
               (''record'',
                JObj [(''id'', JStr ''rec1''),
                      (''fields'',
                       JObj [(''Product Name'', JStr ''Widget''),
                             (''SKU'', JStr ''W-1''),
                             (''Stock Quantity'', JNum 5)])])]\<rparr>]"
  using webhook_post_envelope
      [of "\<lparr>recordId = Some ''rec1'', triggerType = ''update''\<rparr>" "''rec1''"
      "[demo_record]" demo_record 200000 demo_fetch "''app1''"]
  by (simp add: selectRecordAsync_def demo_record_def shouldSync_def SYNC_THRESHOLD_MINUTES_def
      WEBHOOK_URL_def WEBHOOK_SECRET_def)

text \<open>
  C3. For update events, \<open>shouldSync\<close> is a function of the record's
  \<open>Last WooCommerce Sync\<close> value and the current time alone: two records with the same
  value get the same decision at the same time, whatever else differs between them
  (their other cells, and so what was edited and by whom). So an edit within one minute
  of a sync is suppressed, and an event whose sync timestamp is more than one minute old
  is forwarded.
\<close>

theorem shouldSync_depends_only_on_sync_time:
  "(Last_WooCommerce_Sync r1 = Last_WooCommerce_Sync r2 \<longrightarrow>
      shouldSync ''update'' now r1 = shouldSync ''update'' now r2)
   \<and> (Last_WooCommerce_Sync r1 = Some t \<and> now - t < 60000 \<longrightarrow> \<not> shouldSync ''update'' now r1)
   \<and> (Last_WooCommerce_Sync r1 = Some t \<and> 60000 < now - t \<longrightarrow> shouldSync ''update'' now r1)"
  by (auto simp: shouldSync_def SYNC_THRESHOLD_MINUTES_def Let_def split: option.splits)

theorem shouldSync_depends_only_on_sync_time_witness:
  "shouldSync ''update'' 100000 demo_record
     = shouldSync ''update'' 100000 (demo_record\<lparr>record_id := ''rec2'', Stock_Quantity := JNum 7\<rparr>)
   \<and> \<not> shouldSync ''update'' 100000 demo_record
   \<and> shouldSync ''update'' 200000 demo_record"
  using shouldSync_depends_only_on_sync_time
      [of demo_record "demo_record\<lparr>record_id := ''rec2'', Stock_Quantity := JNum 7\<rparr>" 100000 90000]
    shouldSync_depends_only_on_sync_time [of demo_record demo_record 200000 90000]
  by (auto simp: demo_record_def)

section \<open>The server: helper functions, middleware and routes\<close>

lemma bindE_returnE [simp]: "bindE (returnE x) f = f x"
  by (rule ext) (simp add: bindE_def returnE_def)

lemma bindE_throwE [simp]: "bindE (throwE err) f = throwE err"
  by (rule ext) (simp add: bindE_def throwE_def)

lemma catchE_returnE [simp]: "catchE (returnE x) h = returnE x"
  by (rule ext) (simp add: catchE_def returnE_def)

lemma catchE_throwE [simp]: "catchE (throwE err) h = h err"
  by (rule ext) (simp add: catchE_def throwE_def)

lemma airtable_request_ok:
  "next_fault w = None \<Longrightarrow> airtable_request op t None w = (Inr (), after_call op t None w)"
  by (simp add: airtable_request_def)

lemma airtable_request_fault:
  "next_fault w = Some m \<Longrightarrow>
   airtable_request op t rej w = (Inl (JsError ''Error'' m), after_call op t (Some m) w)"
  by (simp add: airtable_request_def)

lemma project_None [simp]: "project None = (\<lambda>r. r)"
  by (rule ext) (simp add: project_def)

lemma first_match:
  "(case take (Suc 0) (filter P xs) of [] \<Rightarrow> None | r # rs \<Rightarrow> Some (c r)) = map_option c (find P xs)"
  by (induction xs) auto

lemma select_one:
  "take 100 (select_records e
      \<lparr>filterByFormula = P, maxRecords = Some (Some 1), sort_by = None, fields_only = None\<rparr> recs)
   = take (Suc 0) (filter P recs)"
  by (simp add: select_records_def Let_def)

lemma findRecordByField_eq:
  "findRecordByField e t f v w =
     (case next_fault w of
        Some m \<Rightarrow>
          (Inr None,
           (after_call Select t (Some m) w)
             \<lparr>console := console w @ [''Error finding record in '' @ table_name t @ '': '' @ m]\<rparr>)
      | None \<Rightarrow>
          (Inr (map_option cleanRecord (find (field_equals f v) (get_table t w))),
           after_call Select t None w))"
proof (cases "next_fault w")
  case None
  have "get_table t (after_call Select t None w) = get_table t w"
    by (cases t) (simp_all add: after_call_def)
  with None show ?thesis
    by (simp add: findRecordByField_def firstPage_def catchE_def bindE_def returnE_def
        airtable_request_def maxRecords_rejected_def select_one first_match)
next
  case (Some m)
  then show ?thesis
    by (simp add: findRecordByField_def firstPage_def catchE_def bindE_def returnE_def
        airtable_request_def maxRecords_rejected_def console_error_def after_call_def)
qed

lemma get_table_after_call [simp]: "get_table t (after_call op t' outcome w) = get_table t w"
  by (cases t) (simp_all add: after_call_def)

lemma findRecordByField_total: "\<exists>r w'. findRecordByField e t f v w = (Inr r, w')"
  by (simp add: findRecordByField_eq split: option.splits)

lemma getProduct_eq:
  "getProduct e req user w =
     (case findRecordByField e PRODUCTS ''Barcode'' (param_barcode req) w of
        (Inr None, w') \<Rightarrow> (Inr (json_response 404 (error_body ''Product not found'')), w')
      | (Inr (Some p), w') \<Rightarrow> (Inr (json_response 200 (JObj p)), w')
      | (Inl err, w') \<Rightarrow> (Inr (json_response 500 (error_body (message err))), w'))"
  by (simp add: getProduct_def getProduct_body_def try_catch_500_def catchE_def bindE_def returnE_def
      split: prod.splits sum.splits option.splits)

lemma getProduct_status:
  "\<exists>res w'. getProduct e req user w = (Inr res, w') \<and> (status res = 200 \<or> status res = 404)"
  using findRecordByField_total [of e PRODUCTS "''Barcode''" "param_barcode req" w]
  by (auto simp: getProduct_eq json_response_def split: option.splits)

lemma authenticate_eq:
  "authenticate e req w =
     (case bearer_token req of
        None \<Rightarrow> (Inr (Inl (json_response 401 (error_body ''Access token required''))), w)
      | Some token \<Rightarrow>
          if token = [] then (Inr (Inl (json_response 401 (error_body ''Access token required''))), w)
          else
            (case jwt_verify e token (jwt_secret e) of
               None \<Rightarrow> (Inr (Inl (json_response 403 (error_body ''Invalid token''))), w)
             | Some decoded \<Rightarrow>
                 (case findRecordByField e USERS ''Email'' (template e (obj_get decoded ''email'')) w of
                    (Inr None, w') \<Rightarrow> (Inr (Inl (json_response 403 (error_body ''User not found''))), w')
                  | (Inr (Some u), w') \<Rightarrow> (Inr (Inr u), w')
                  | (Inl err, w') \<Rightarrow> (Inr (Inl (json_response 403 (error_body ''Invalid token''))), w'))))"
  by (simp add: authenticate_def catchE_def bindE_def returnE_def throwE_def
      split: prod.splits sum.splits option.splits)

lemma authenticate_status:
  "\<exists>r w'. authenticate e req w = (Inr r, w') \<and>
     (case r of Inl res \<Rightarrow> status res = 401 \<or> status res = 403 | Inr u \<Rightarrow> True)"
  using findRecordByField_total [of e USERS "''Email''" _ w]
  by (auto simp: authenticate_eq json_response_def split: option.splits prod.splits sum.splits)

text \<open>
  C10. \<open>findRecordByField\<close> never throws; it returns \<open>null\<close> when the Airtable
  query throws and when no record matches. So \<open>GET /api/products/:barcode\<close> answers
  404 \<open>Product not found\<close> in both cases, and the route never answers 500.
\<close>

theorem lookup_failure_reads_as_not_found:
  "(\<exists>r w'. findRecordByField e t f v w = (Inr r, w'))
   \<and> (next_fault w = Some m \<longrightarrow> fst (findRecordByField e t f v w) = Inr None)
   \<and> (next_fault w = None \<and> find (field_equals f v) (get_table t w) = None \<longrightarrow>
        fst (findRecordByField e t f v w) = Inr None)
   \<and> (next_fault w = Some m \<longrightarrow>
        fst (getProduct e req user w) = Inr (json_response 404 (error_body ''Product not found'')))
   \<and> (next_fault w = None \<and> find (field_equals ''Barcode'' (param_barcode req)) (Products w) = None \<longrightarrow>
        fst (getProduct e req user w) = Inr (json_response 404 (error_body ''Product not found'')))
   \<and> (\<exists>res w'. app e GetProduct req w = (Inr res, w') \<and> status res \<noteq> 500)"
proof -
  have route: "\<exists>res w'. app e GetProduct req w = (Inr res, w') \<and> status res \<noteq> 500"
  proof -
    obtain r w1 where a: "authenticate e req w = (Inr r, w1)"
      and st: "case r of Inl res \<Rightarrow> status res = 401 \<or> status res = 403 | Inr u \<Rightarrow> True"
      using authenticate_status by blast
    show ?thesis
    proof (cases r)
      case (Inl res)
      with a st show ?thesis
        by (auto simp: authenticateToken_def bindE_def returnE_def)
    next
      case (Inr u)
      obtain res w2 where "getProduct e req u w1 = (Inr res, w2)"
        and "status res = 200 \<or> status res = 404"
        using getProduct_status by blast
      with a Inr show ?thesis
        by (auto simp: authenticateToken_def bindE_def)
    qed
  qed
  show ?thesis
    using route findRecordByField_total [of e t f v w]
    by (simp add: findRecordByField_eq getProduct_eq)
qed

theorem lookup_failure_reads_as_not_found_witness:
  "next_fault (demo_world\<lparr>faults := [Some ''timeout'']\<rparr>) = Some ''timeout''
   \<and> fst (findRecordByField demo_env PRODUCTS ''Barcode'' ''123'' (demo_world\<lparr>faults := [Some ''timeout'']\<rparr>))
       = Inr None
   \<and> fst (getProduct demo_env (demo_request None [] ''123'') demo_user (demo_world\<lparr>faults := [Some ''timeout'']\<rparr>))
       = Inr (json_response 404 (error_body ''Product not found''))
   \<and> fst (getProduct demo_env (demo_request None [] ''999'') demo_user demo_world)
       = Inr (json_response 404 (error_body ''Product not found''))"
proof -
  have 1: "next_fault (demo_world\<lparr>faults := [Some ''timeout'']\<rparr>) = Some ''timeout''"
    by (simp add: next_fault_def)
  have 2: "next_fault demo_world = None
      \<and> find (field_equals ''Barcode'' (param_barcode (demo_request None [] ''999''))) (Products demo_world) = None"
    by code_simp
  show ?thesis
    using 1 2
      lookup_failure_reads_as_not_found [where w = "demo_world\<lparr>faults := [Some ''timeout'']\<rparr>" and m = "''timeout''"
        and e = demo_env and t = PRODUCTS and f = "''Barcode''" and v = "''123''"
        and req = "demo_request None [] ''123''" and user = demo_user]
      lookup_failure_reads_as_not_found [where w = demo_world and e = demo_env and req = "demo_request None [] ''999''"
        and user = demo_user]
    by simp
qed




lemma createRecord_eq:
  "createRecord e t flds w =
     (case next_fault w of
        Some m \<Rightarrow>
          (Inl (JsError ''Error'' m),
           (after_call Create t (Some m) w)
             \<lparr>console := console w @ [''Error creating record in '' @ table_name t @ '': '' @ m]\<rparr>)
      | None \<Rightarrow>
          (Inr (cleanRecord \<lparr>rec_id = new_record_id e (next_id w), rec_fields = flds\<rparr>),
           (set_table t
              (get_table t w @ [\<lparr>rec_id = new_record_id e (next_id w), rec_fields = flds\<rparr>])
              (after_call Create t None w))\<lparr>next_id := Suc (next_id w)\<rparr>))"
  by (cases t)
     (simp_all add: createRecord_def airtable_create_def catchE_def bindE_def returnE_def throwE_def
      airtable_request_def console_error_def after_call_def Let_def split: option.splits)

text \<open>
  C6 does not hold of the code: \<open>GET /api/products\<close> answers every request that
  reaches its handler with status 500 and the message of the \<open>ReferenceError\<close>, and
  logs it; it never queries the Products table, so it returns no page of products.
\<close>

theorem getProducts_always_throws:
  "getProducts e req user w =
     (Inr (json_response 500 (error_body ''filterByFormula is not defined'')),
      w\<lparr>console := console w @ [''Get products error: filterByFormula is not defined'']\<rparr>)"
  by (simp add: getProducts_def getProducts_body_def try_catch_500_def bindE_def returnE_def
      console_error_def Let_def)

lemma login_unknown:
  assumes "findRecordByField e USERS ''Email'' (template e (obj_get (req_body req) ''email'')) w = (Inr None, w')"
  shows "login e req w = (Inr (json_response 401 (error_body ''Invalid credentials'')), w')"
  using assms
  by (simp add: login_def login_body_def try_catch_500_def catchE_def bindE_def returnE_def Let_def)

lemma login_wrong_password:
  assumes "findRecordByField e USERS ''Email'' (template e (obj_get (req_body req) ''email'')) w = (Inr (Some u), w')"
    and "bcrypt_compare e (obj_get (req_body req) ''password'') (obj_get u ''Password'') = Inr False"
  shows "login e req w = (Inr (json_response 401 (error_body ''Invalid credentials'')), w')"
  using assms
  by (simp add: login_def login_body_def try_catch_500_def catchE_def bindE_def returnE_def Let_def
      liftE_def)

lemma login_compare_throws:
  assumes "findRecordByField e USERS ''Email'' (template e (obj_get (req_body req) ''email'')) w = (Inr (Some u), w')"
    and "bcrypt_compare e (obj_get (req_body req) ''password'') (obj_get u ''Password'') = Inl err"
  shows "fst (login e req w) = Inr (json_response 500 (error_body (message err)))"
  using assms
  by (simp add: login_def login_body_def try_catch_500_def catchE_def bindE_def returnE_def Let_def
      liftE_def throwE_def console_error_def)

text \<open>
  C9, as stated, fails. Ann has an account and Bob has none. A login request with Ann's
  email and no password is answered with status 500 and the message of the error that
  \<open>bcrypt.compare\<close> throws; the same request with Bob's email is answered with status
  401 and \<open>Invalid credentials\<close>. The two responses differ, so they show that Ann's
  account exists.
\<close>

theorem missing_password_reveals_account:
  "fst (app demo_env PostLogin (demo_request None [(''email'', JStr ''ann@example.com'')] []) demo_world)
     = Inr (json_response 500 (error_body ''Illegal arguments: undefined, string''))
   \<and> fst (app demo_env PostLogin (demo_request None [(''email'', JStr ''bob@example.com'')] []) demo_world)
     = Inr (json_response 401 (error_body ''Invalid credentials''))"
  by code_simp

text \<open>
  C9, amended. \<open>POST /api/auth/login\<close> gives the same response, status 401 with the
  body \<open>{error: 'Invalid credentials'}\<close>, when no user has the submitted email and
  when a user has it and \<open>bcrypt.compare\<close> returns \<open>false\<close>: between these two
  the response does not show whether the account exists. When a user has the email and
  \<open>bcrypt.compare\<close> throws (the password is missing or is not a string), the
  handler's \<open>catch\<close> answers with status 500 and the message of the error, which is
  not the response to an unknown email.
\<close>

theorem login_failures_identical:
  assumes "next_fault w1 = None"
    and "find (field_equals ''Email'' (template e (obj_get (req_body req1) ''email''))) (Users w1) = None"
    and "next_fault w2 = None"
    and "find (field_equals ''Email'' (template e (obj_get (req_body req2) ''email''))) (Users w2) = Some u"
  shows "(bcrypt_compare e (obj_get (req_body req2) ''password'') (obj_get (cleanRecord u) ''Password'')
            = Inr False \<longrightarrow>
          fst (login e req1 w1) = Inr (json_response 401 (error_body ''Invalid credentials''))
          \<and> fst (login e req2 w2) = fst (login e req1 w1))
       \<and> (\<forall>err. bcrypt_compare e (obj_get (req_body req2) ''password'') (obj_get (cleanRecord u) ''Password'')
            = Inl err \<longrightarrow>
          fst (login e req1 w1) = Inr (json_response 401 (error_body ''Invalid credentials''))
          \<and> fst (login e req2 w2) = Inr (json_response 500 (error_body (message err))))"
proof -
  have "findRecordByField e USERS ''Email'' (template e (obj_get (req_body req1) ''email'')) w1
          = (Inr None, after_call Select USERS None w1)"
    using assms(1,2) by (simp add: findRecordByField_eq)
  then have "login e req1 w1 =
      (Inr (json_response 401 (error_body ''Invalid credentials'')), after_call Select USERS None w1)"
    by (rule login_unknown)
  then have one: "fst (login e req1 w1) = Inr (json_response 401 (error_body ''Invalid credentials''))"
    by simp
  have found: "findRecordByField e USERS ''Email'' (template e (obj_get (req_body req2) ''email'')) w2
          = (Inr (Some (cleanRecord u)), after_call Select USERS None w2)"
    using assms(3,4) by (simp add: findRecordByField_eq)
  have wrong: "fst (login e req2 w2) = Inr (json_response 401 (error_body ''Invalid credentials''))"
    if "bcrypt_compare e (obj_get (req_body req2) ''password'') (obj_get (cleanRecord u) ''Password'')
          = Inr False"
    using login_wrong_password [OF found that] by simp
  have throws: "fst (login e req2 w2) = Inr (json_response 500 (error_body (message err)))"
    if "bcrypt_compare e (obj_get (req_body req2) ''password'') (obj_get (cleanRecord u) ''Password'')
          = Inl err" for err
    using found that by (rule login_compare_throws)
  show ?thesis
    using one wrong throws by simp
qed

theorem login_failures_identical_witness:
  "fst (login demo_env (demo_request None [(''email'', JStr ''bob@example.com''), (''password'', JStr ''secret'')] []) demo_world)
     = Inr (json_response 401 (error_body ''Invalid credentials''))
   \<and> fst (login demo_env (demo_request None [(''email'', JStr ''ann@example.com''), (''password'', JStr ''guess'')] []) demo_world)
     = fst (login demo_env (demo_request None [(''email'', JStr ''bob@example.com''), (''password'', JStr ''secret'')] []) demo_world)
   \<and> fst (login demo_env (demo_request None [(''email'', JStr ''ann@example.com'')] []) demo_world)
     = Inr (json_response 500 (error_body ''Illegal arguments: undefined, string''))"
proof -
  let ?bob = "demo_request None [(''email'', JStr ''bob@example.com''), (''password'', JStr ''secret'')] []"
  let ?guess = "demo_request None [(''email'', JStr ''ann@example.com''), (''password'', JStr ''guess'')] []"
  let ?none = "demo_request None [(''email'', JStr ''ann@example.com'')] []"
  let ?err = "JsError ''Error'' ''Illegal arguments: undefined, string''"
  have 1: "next_fault demo_world = None"
    by (simp add: next_fault_def demo_world_def)
  have 2: "find (field_equals ''Email'' (template demo_env (obj_get (req_body ?bob) ''email'')))
        (Users demo_world) = None"
    by code_simp
  have 3: "find (field_equals ''Email'' (template demo_env (obj_get (req_body ?guess) ''email'')))
        (Users demo_world) = Some demo_user_record"
    by code_simp
  have 4: "bcrypt_compare demo_env (obj_get (req_body ?guess) ''password'')
        (obj_get (cleanRecord demo_user_record) ''Password'') = Inr False"
    by code_simp
  have 5: "find (field_equals ''Email'' (template demo_env (obj_get (req_body ?none) ''email'')))
        (Users demo_world) = Some demo_user_record"
    by code_simp
  have 6: "bcrypt_compare demo_env (obj_get (req_body ?none) ''password'')
        (obj_get (cleanRecord demo_user_record) ''Password'') = Inl ?err"
    by code_simp
  have a: "fst (login demo_env ?bob demo_world) = Inr (json_response 401 (error_body ''Invalid credentials''))
      \<and> fst (login demo_env ?guess demo_world) = fst (login demo_env ?bob demo_world)"
    by (rule login_failures_identical [OF 1 2 1 3, THEN conjunct1, THEN mp]) (rule 4)
  have "fst (login demo_env ?bob demo_world) = Inr (json_response 401 (error_body ''Invalid credentials''))
      \<and> fst (login demo_env ?none demo_world) = Inr (json_response 500 (error_body (message ?err)))"
    by (rule login_failures_identical [OF 1 2 1 5, THEN conjunct2, THEN spec, THEN mp]) (rule 6)
  then have b: "fst (login demo_env ?none demo_world)
      = Inr (json_response 500 (error_body ''Illegal arguments: undefined, string''))"
    by simp
  from a b show ?thesis
    by simp
qed

lemma app_authenticated:
  "r \<noteq> PostRegister \<Longrightarrow> r \<noteq> PostLogin \<Longrightarrow>
   app e r req = authenticateToken e req (handler e r req)"
  by (cases r) simp_all

lemma authenticateToken_rejects:
  "authenticate e req w = (Inr (Inl res), w') \<Longrightarrow> authenticateToken e req next w = (Inr res, w')"
  by (simp add: authenticateToken_def bindE_def returnE_def)

lemma same_tables_after_call:
  "Users (after_call op t outcome w) = Users w \<and> Products (after_call op t outcome w) = Products w
   \<and> ScanHistory (after_call op t outcome w) = ScanHistory w
   \<and> Settings (after_call op t outcome w) = Settings w"
  by (simp add: after_call_def)

text \<open>
  C7. On every route other than register and login: a request with no
  \<open>Authorization\<close> header (or with one that carries no token) gets status 401 with
  \<open>Access token required\<close>, and a request whose token fails verification gets
  status 403; in both cases the world is left as it was, so no call to Airtable is made.
  A request whose token verifies but whose user is not in the Users table gets status
  403 too: the tables are unchanged and the only call to Airtable is the middleware's own
  lookup in Users. In none of these cases does the response depend on the handler.
\<close>

theorem unauthenticated_request_rejected:
  assumes "r \<noteq> PostRegister" and "r \<noteq> PostLogin"
  shows "(authorization req = None \<longrightarrow>
            app e r req w = (Inr (json_response 401 (error_body ''Access token required'')), w))
       \<and> (bearer_token req = None \<or> bearer_token req = Some [] \<longrightarrow>
            app e r req w = (Inr (json_response 401 (error_body ''Access token required'')), w))
       \<and> (bearer_token req = Some token \<and> token \<noteq> [] \<and> jwt_verify e token (jwt_secret e) = None \<longrightarrow>
            app e r req w = (Inr (json_response 403 (error_body ''Invalid token'')), w))
       \<and> (bearer_token req = Some token \<and> token \<noteq> [] \<and> jwt_verify e token (jwt_secret e) = Some decoded
           \<and> find (field_equals ''Email'' (template e (obj_get decoded ''email''))) (Users w) = None \<longrightarrow>
            (\<exists>w'. app e r req w = (Inr (json_response 403 (error_body ''User not found'')), w')
                \<and> Users w' = Users w \<and> Products w' = Products w
                \<and> ScanHistory w' = ScanHistory w \<and> Settings w' = Settings w
                \<and> calls w' = calls w @ [(Select, USERS, next_fault w)]))"
proof -
  have route: "app e r req = authenticateToken e req (handler e r req)"
    using assms by (rule app_authenticated)
  have none: "authorization req = None \<Longrightarrow> bearer_token req = None"
    by (simp add: bearer_token_def)
  have no_token: "bearer_token req = None \<or> bearer_token req = Some [] \<Longrightarrow>
      app e r req w = (Inr (json_response 401 (error_body ''Access token required'')), w)"
    unfolding route by (rule authenticateToken_rejects) (auto simp: authenticate_eq)
  have bad_token: "bearer_token req = Some token \<and> token \<noteq> [] \<and> jwt_verify e token (jwt_secret e) = None \<Longrightarrow>
      app e r req w = (Inr (json_response 403 (error_body ''Invalid token'')), w)"
    unfolding route by (rule authenticateToken_rejects) (auto simp: authenticate_eq)
  have no_user: "\<exists>w'. app e r req w = (Inr (json_response 403 (error_body ''User not found'')), w')
                \<and> Users w' = Users w \<and> Products w' = Products w
                \<and> ScanHistory w' = ScanHistory w \<and> Settings w' = Settings w
                \<and> calls w' = calls w @ [(Select, USERS, next_fault w)]"
    if h: "bearer_token req = Some token \<and> token \<noteq> [] \<and> jwt_verify e token (jwt_secret e) = Some decoded
           \<and> find (field_equals ''Email'' (template e (obj_get decoded ''email''))) (Users w) = None"
  proof (cases "next_fault w")
    case None
    with h have "authenticate e req w =
        (Inr (Inl (json_response 403 (error_body ''User not found''))), after_call Select USERS None w)"
      by (simp add: authenticate_eq findRecordByField_eq)
    then have "app e r req w =
        (Inr (json_response 403 (error_body ''User not found'')), after_call Select USERS None w)"
      unfolding route by (rule authenticateToken_rejects)
    with None show ?thesis
      by (simp add: after_call_def)
  next
    case (Some m)
    with h have "authenticate e req w =
        (Inr (Inl (json_response 403 (error_body ''User not found''))),
         (after_call Select USERS (Some m) w)
           \<lparr>console := console w @ [''Error finding record in '' @ table_name USERS @ '': '' @ m]\<rparr>)"
      by (simp add: authenticate_eq findRecordByField_eq)
    then have "app e r req w =
        (Inr (json_response 403 (error_body ''User not found'')),
         (after_call Select USERS (Some m) w)
           \<lparr>console := console w @ [''Error finding record in '' @ table_name USERS @ '': '' @ m]\<rparr>)"
      unfolding route by (rule authenticateToken_rejects)
    with Some show ?thesis
      by (simp add: after_call_def)
  qed
  show ?thesis
    using none no_token bad_token no_user by blast
qed

theorem unauthenticated_request_rejected_witness:
  "app demo_env PostProducts (demo_request None [(''barcode'', JStr ''123'')] []) demo_world
     = (Inr (json_response 401 (error_body ''Access token required'')), demo_world)
   \<and> app demo_env PostProducts (demo_request (Some ''Bearer forged'') [(''barcode'', JStr ''123'')] []) demo_world
     = (Inr (json_response 403 (error_body ''Invalid token'')), demo_world)
   \<and> fst (app demo_env PostProducts (demo_request (Some ''Bearer stale-token'') [(''barcode'', JStr ''123'')] [])
          demo_world)
     = Inr (json_response 403 (error_body ''User not found''))"
proof -
  have r: "PostProducts \<noteq> PostRegister" "PostProducts \<noteq> PostLogin"
    by simp_all
  have 1: "authorization (demo_request None [(''barcode'', JStr ''123'')] []) = None"
    by (simp add: demo_request_def)
  have 2: "bearer_token (demo_request (Some ''Bearer forged'') [(''barcode'', JStr ''123'')] []) = Some ''forged''
      \<and> ''forged'' \<noteq> [] \<and> jwt_verify demo_env ''forged'' (jwt_secret demo_env) = None"
    by code_simp
  have 3: "bearer_token (demo_request (Some ''Bearer stale-token'') [(''barcode'', JStr ''123'')] [])
        = Some ''stale-token''
      \<and> ''stale-token'' \<noteq> []
      \<and> jwt_verify demo_env ''stale-token'' (jwt_secret demo_env)
          = Some [(''id'', JStr ''recU9''), (''email'', JStr ''gone@example.com'')]
      \<and> find (field_equals ''Email''
            (template demo_env (obj_get [(''id'', JStr ''recU9''), (''email'', JStr ''gone@example.com'')] ''email'')))
          (Users demo_world) = None"
    by code_simp
  show ?thesis
    using unauthenticated_request_rejected [OF r, where req = "demo_request None [(''barcode'', JStr ''123'')] []"
        and e = demo_env and w = demo_world]
      unauthenticated_request_rejected [OF r, where req = "demo_request (Some ''Bearer forged'') [(''barcode'', JStr ''123'')] []"
        and e = demo_env and w = demo_world and token = "''forged''"]
      unauthenticated_request_rejected [OF r, where req = "demo_request (Some ''Bearer stale-token'') [(''barcode'', JStr ''123'')] []"
        and e = demo_env and w = demo_world and token = "''stale-token''"
        and decoded = "[(''id'', JStr ''recU9''), (''email'', JStr ''gone@example.com'')]"]
      1 2 3
    by auto
qed





section \<open>The server: scan history and scan counts\<close>

























text \<open>
  C4 does not hold of the bulk route: \<open>POST /api/products/bulk\<close> never looks a barcode
  up in the Products table. With the product of barcode 123 in the base, a bulk request
  for barcode 123 makes no query on Products; it creates a second record with that
  barcode and reports one success.
\<close>

theorem bulk_creates_second_record_for_barcode:
  "map (\<lambda>r. obj_get (rec_fields r) ''Barcode'') (Products demo_world) = [Some (JStr ''123'')]
   \<and> map_sum message status
        (fst (app demo_env PostBulk
                (demo_request (Some ''Bearer good-token'') [(''barcodes'', JArr [JStr ''123''])] [])
                demo_world)) = Inr 200
   \<and> calls (snd (app demo_env PostBulk
                (demo_request (Some ''Bearer good-token'') [(''barcodes'', JArr [JStr ''123''])] [])
                demo_world)) = [(Select, USERS, None), (Create, PRODUCTS, None)]
   \<and> map (\<lambda>r. obj_get (rec_fields r) ''Barcode'')
        (Products (snd (app demo_env PostBulk
                (demo_request (Some ''Bearer good-token'') [(''barcodes'', JArr [JStr ''123''])] [])
                demo_world)))
       = [Some (JStr ''123''), Some (JStr ''123'')]"
  by code_simp

section \<open>The server: failed calls and the responses to them\<close>

named_theorems escalates_intros

lemma escalates_returnE [escalates_intros]: "escalates K (returnE x)"
  by (simp add: escalates_def returnE_def)

lemma escalates_throwE [escalates_intros]: "escalates K (throwE err)"
  by (simp add: escalates_def throwE_def)

lemma escalates_liftE [escalates_intros]: "escalates K (liftE r)"
  by (cases r) (simp_all add: liftE_def escalates_intros)

lemma escalates_console_error [escalates_intros]: "escalates K (console_error line)"
  by (simp add: escalates_def console_error_def)

lemma escalates_bindE [escalates_intros]:
  assumes c: "escalates K c" and f: "\<And>x. escalates K (f x)"
  shows "escalates K (bindE c f)"
  unfolding escalates_def
proof
  fix w
  obtain r1 w1 where cw: "c w = (r1, w1)"
    by (cases "c w")
  from c obtain new1 where n1: "calls w1 = calls w @ new1"
    and e1: "\<forall>op t m. (op, t, Some m) \<in> set new1 \<and> K op \<longrightarrow> r1 = Inl (JsError ''Error'' m)"
    unfolding escalates_def using cw by (metis fst_conv snd_conv)
  show "\<exists>new. calls (snd (bindE c f w)) = calls w @ new
             \<and> (\<forall>op t m. (op, t, Some m) \<in> set new \<and> K op \<longrightarrow> fst (bindE c f w) = Inl (JsError ''Error'' m))"
  proof (cases r1)
    case (Inl err)
    with cw n1 e1 show ?thesis
      by (auto simp: bindE_def)
  next
    case (Inr x)
    obtain r2 w2 where fw: "f x w1 = (r2, w2)"
      by (cases "f x w1")
    from f [of x] obtain new2 where n2: "calls w2 = calls w1 @ new2"
      and e2: "\<forall>op t m. (op, t, Some m) \<in> set new2 \<and> K op \<longrightarrow> r2 = Inl (JsError ''Error'' m)"
      unfolding escalates_def using fw by (metis fst_conv snd_conv)
    have b: "bindE c f w = (r2, w2)"
      using cw Inr fw by (simp add: bindE_def)
    have "calls w2 = calls w @ (new1 @ new2)"
      using n1 n2 by simp
    moreover have "\<forall>op t m. (op, t, Some m) \<in> set (new1 @ new2) \<and> K op \<longrightarrow> r2 = Inl (JsError ''Error'' m)"
      using e1 e2 Inr by auto
    ultimately show ?thesis
      unfolding b by (intro exI [of _ "new1 @ new2"]) simp
  qed
qed

lemma escalates_airtable_request [escalates_intros]: "escalates K (airtable_request op t rej)"
  by (auto simp: escalates_def airtable_request_def after_call_def Let_def split: option.splits)

lemma escalates_fun:
  "(\<And>w. calls (snd (f w)) = calls w) \<Longrightarrow> escalates K f"
  by (simp add: escalates_def)

lemma escalates_firstPage [escalates_intros]: "escalates K (firstPage e t q)"
  unfolding firstPage_def by (intro escalates_intros escalates_fun) simp

lemma escalates_all_records [escalates_intros]: "escalates K (all_records e t q)"
  unfolding all_records_def by (intro escalates_intros escalates_fun) simp

lemma calls_set_table [simp]: "calls (set_table t rs w) = calls w"
  by (cases t) simp_all

lemma escalates_rethrow:
  assumes "escalates K c"
  shows "escalates K (catchE c (\<lambda>error. bindE (console_error (l error)) (\<lambda>_. throwE error)))"
  unfolding escalates_def
proof
  fix w
  obtain r1 w1 where cw: "c w = (r1, w1)"
    by (cases "c w")
  from assms obtain new where n: "calls w1 = calls w @ new"
    and e: "\<forall>op t m. (op, t, Some m) \<in> set new \<and> K op \<longrightarrow> r1 = Inl (JsError ''Error'' m)"
    unfolding escalates_def using cw by (metis fst_conv snd_conv)
  let ?h = "catchE c (\<lambda>error. bindE (console_error (l error)) (\<lambda>_. throwE error))"
  have "fst (?h w) = r1 \<and> calls (snd (?h w)) = calls w1"
    using cw by (cases r1) (simp_all add: catchE_def bindE_def console_error_def throwE_def)
  with n e show "\<exists>new. calls (snd (?h w)) = calls w @ new
             \<and> (\<forall>op t m. (op, t, Some m) \<in> set new \<and> K op \<longrightarrow> fst (?h w) = Inl (JsError ''Error'' m))"
    by auto
qed

lemma escalates_airtable_create: "escalates K (airtable_create e t flds)"
  unfolding airtable_create_def by (intro escalates_intros escalates_fun) (simp add: Let_def)

lemma escalates_createRecord [escalates_intros]: "escalates K (createRecord e t flds)"
  unfolding createRecord_def
  by (intro escalates_rethrow escalates_intros escalates_airtable_create)

lemma escalates_airtable_update: "escalates K (airtable_update t rid flds)"
  by (auto simp: escalates_def airtable_update_def bindE_def throwE_def airtable_request_def
      after_call_def Let_def split: option.splits)

lemma escalates_updateRecord [escalates_intros]: "escalates K (updateRecord e t rid flds)"
  unfolding updateRecord_def
  by (intro escalates_rethrow escalates_intros escalates_airtable_update)

lemma escalates_airtable_destroy [escalates_intros]: "escalates K (airtable_destroy t rid)"
  by (auto simp: escalates_def airtable_destroy_def bindE_def throwE_def airtable_request_def
      after_call_def Let_def split: option.splits)

lemma escalates_findRecordByField [escalates_intros]:
  "escalates is_write (findRecordByField e t f v)"
  by (auto simp: escalates_def findRecordByField_eq after_call_def is_write_def split: option.splits)

lemma escalates_if [escalates_intros]:
  "(P \<Longrightarrow> escalates K a) \<Longrightarrow> (\<not> P \<Longrightarrow> escalates K b) \<Longrightarrow> escalates K (if P then a else b)"
  by simp

lemma escalates_case_option [escalates_intros]:
  "(x = None \<Longrightarrow> escalates K a) \<Longrightarrow> (\<And>y. x = Some y \<Longrightarrow> escalates K (b y)) \<Longrightarrow>
   escalates K (case x of None \<Rightarrow> a | Some y \<Rightarrow> b y)"
  by (cases x) simp_all

lemma escalates_register: "escalates is_write (register_body e req)"
  unfolding register_body_def Let_def by (intro escalates_intros)

lemma escalates_login: "escalates is_write (login_body e req)"
  unfolding login_body_def Let_def by (intro escalates_intros)

lemma escalates_lookup: "escalates K (lookup_body e req)"
  unfolding lookup_body_def Let_def by (intro escalates_intros)

lemma escalates_getProducts: "escalates K (getProducts_body e req)"
  unfolding getProducts_body_def Let_def by (intro escalates_intros)

lemma escalates_getProduct: "escalates is_write (getProduct_body e req)"
  unfolding getProduct_body_def by (intro escalates_intros)

lemma escalates_save_product: "escalates K (save_product e req user existing)"
  unfolding save_product_def by (intro escalates_intros)

lemma escalates_postProducts: "escalates is_write (postProducts_body e req user)"
  unfolding postProducts_body_def by (intro escalates_intros escalates_save_product)

lemma escalates_deleteProduct: "escalates is_write (deleteProduct_body e req user)"
  unfolding deleteProduct_body_def by (intro escalates_intros)

lemma escalates_postSettings: "escalates is_write (postSettings_body e req user)"
  unfolding postSettings_body_def Let_def by (intro escalates_intros)

lemma escalates_uploadImage: "escalates is_write (uploadImage_body e req)"
  unfolding uploadImage_body_def Let_def
  by (intro escalates_intros) (auto intro!: escalates_intros split: json.splits)

lemma escalates_count_statuses: "escalates K (count_statuses e statuses acc)"
proof (induction statuses arbitrary: acc)
  case Nil
  have "count_statuses e [] acc = returnE acc"
    by (rule ext) (simp add: returnE_def)
  then show ?case
    by (simp add: escalates_intros)
next
  case (Cons s statuses)
  have "count_statuses e (s # statuses) acc =
      bindE (firstPage e PRODUCTS
               \<lparr>filterByFormula = field_equals ''Status'' s, maxRecords = None,
                sort_by = None, fields_only = Some [''Barcode'']\<rparr>)
        (\<lambda>records. count_statuses e statuses (obj_set s (JNum (of_nat (length records))) acc))"
    by (rule ext) (simp add: bindE_def split: prod.splits sum.splits)
  then show ?case
    using Cons.IH by (simp add: escalates_intros)
qed

lemma escalates_stats: "escalates K (stats_body e req user)"
  unfolding stats_body_def Let_def by (intro escalates_intros escalates_count_statuses)

lemma escalates_history: "escalates K (history_body e req user)"
  unfolding history_body_def Let_def by (intro escalates_intros)

lemma escalates_exportCsv: "escalates K (exportCsv_body e req)"
  unfolding exportCsv_body_def Let_def by (intro escalates_intros)

lemma escalates_getSettings: "escalates K (getSettings_body e req user)"
  unfolding getSettings_body_def
  by (intro escalates_intros) (auto intro!: escalates_intros split: list.splits)

text \<open>The handler around an escalating body answers 500 with the message of the failed call.\<close>

lemma try_catch_500_escalated:
  assumes "escalates K c" and "m \<in> set (failures K (new_calls w (snd (try_catch_500 l c w))))"
  shows "fst (try_catch_500 l c w) = Inr (json_response 500 (error_body m))"
proof -
  obtain r1 w1 where cw: "c w = (r1, w1)"
    by (cases "c w")
  from assms(1) obtain new where n: "calls w1 = calls w @ new"
    and e: "\<forall>op t m. (op, t, Some m) \<in> set new \<and> K op \<longrightarrow> r1 = Inl (JsError ''Error'' m)"
    unfolding escalates_def using cw by (metis fst_conv snd_conv)
  have same: "calls (snd (try_catch_500 l c w)) = calls w1"
    using cw
    by (cases r1; cases l)
       (simp_all add: try_catch_500_def catchE_def bindE_def returnE_def console_error_def)
  have "new_calls w (snd (try_catch_500 l c w)) = new"
    using same n by (simp add: new_calls_def)
  with assms(2) obtain op t where "(op, t, Some m) \<in> set new" and "K op"
    by (auto simp: failures_def split: option.splits if_splits)
  with e have "r1 = Inl (JsError ''Error'' m)"
    by blast
  with cw show ?thesis
    by (cases l)
       (simp_all add: try_catch_500_def catchE_def bindE_def returnE_def console_error_def)
qed

lemma bulk_item_step:
  "\<exists>r w1. bulk_item e user b w = (r, w1) \<and> faults w1 = tl (faults w)
      \<and> calls w1 = calls w @ [(Create, PRODUCTS, next_fault w)]
      \<and> (case next_fault w of None \<Rightarrow> (\<exists>p. r = Inr p) | Some m \<Rightarrow> r = Inl (JsError ''Error'' m))"
  by (simp add: bulk_item_def Let_def createRecord_eq after_call_def split: option.splits)

lemma bulk_loop_spec:
  "bulk_loop e user bs rs es w = ((rs', es'), w') \<Longrightarrow>
     es' = es @ bulk_errors (zip bs (scheduled (length bs) (faults w)))
     \<and> length rs' + length es' = length rs + length es + length bs
     \<and> calls w' = calls w @ map (\<lambda>outcome. (Create, PRODUCTS, outcome)) (scheduled (length bs) (faults w))"
proof (induction bs arbitrary: rs es w)
  case Nil
  then show ?case by simp
next
  case (Cons b bs)
  obtain r w1 where step: "bulk_item e user b w = (r, w1)" and f1: "faults w1 = tl (faults w)"
    and c1: "calls w1 = calls w @ [(Create, PRODUCTS, next_fault w)]"
    and out: "case next_fault w of None \<Rightarrow> (\<exists>p. r = Inr p) | Some m \<Rightarrow> r = Inl (JsError ''Error'' m)"
    using bulk_item_step by blast
  have sched: "scheduled (length (b # bs)) (faults w) = next_fault w # scheduled (length bs) (faults w1)"
    by (simp add: next_fault_def f1)
  show ?case
  proof (cases "next_fault w")
    case None
    with out obtain p where r: "r = Inr p"
      by auto
    with Cons.prems step have "bulk_loop e user bs (rs @ [JObj p]) es w1 = ((rs', es'), w')"
      by simp
    from Cons.IH [OF this] show ?thesis
      unfolding sched using None c1 by auto
  next
    case (Some m)
    with out have r: "r = Inl (JsError ''Error'' m)"
      by simp
    with Cons.prems step have
      "bulk_loop e user bs rs (es @ [JObj [(''barcode'', b), (''error'', JStr m)]]) w1 = ((rs', es'), w')"
      by simp
    from Cons.IH [OF this] show ?thesis
      unfolding sched using Some c1 by auto
  qed
qed

lemma bulk_response:
  assumes "iterate (obj_get (req_body req) ''barcodes'') = Inr bs"
  shows "\<exists>results.
           fst (bulk e req user w) =
             Inr (json_response 200
                    (JObj [(''success'', JNum (of_nat (length results))),
                           (''failed'',
                            JNum (of_nat (length (bulk_errors (zip bs (scheduled (length bs) (faults w))))))),
                           (''results'', JArr results),
                           (''errors'', JArr (bulk_errors (zip bs (scheduled (length bs) (faults w)))))]))
         \<and> length results + length (bulk_errors (zip bs (scheduled (length bs) (faults w)))) = length bs
         \<and> new_calls w (snd (bulk e req user w)) =
             map (\<lambda>outcome. (Create, PRODUCTS, outcome)) (scheduled (length bs) (faults w))"
proof -
  obtain rs es w' where loop: "bulk_loop e user bs [] [] w = ((rs, es), w')"
    by (metis surj_pair)
  from bulk_loop_spec [OF this]
  have es: "es = bulk_errors (zip bs (scheduled (length bs) (faults w)))"
    and len: "length rs + length es = length bs"
    and cs: "calls w' = calls w @ map (\<lambda>outcome. (Create, PRODUCTS, outcome)) (scheduled (length bs) (faults w))"
    by auto
  have run: "bulk e req user w =
      (Inr (json_response 200
              (JObj [(''success'', JNum (of_nat (length rs))),
                     (''failed'', JNum (of_nat (length es))),
                     (''results'', JArr rs),
                     (''errors'', JArr es)])), w')"
    using assms loop
    by (simp add: bulk_def bulk_body_def try_catch_500_def catchE_def bindE_def liftE_def returnE_def)
  show ?thesis
    using run es len cs by (intro exI [of _ rs]) (auto simp: new_calls_def)
qed

lemma shapeI:
  "escalates K c \<Longrightarrow> \<exists>l' c'. try_catch_500 l c = try_catch_500 l' c' \<and> escalates K c'"
  by blast

lemma handler_shape:
  "r \<noteq> PostBulk \<Longrightarrow> \<exists>l c. handler e r req user = try_catch_500 l c \<and> escalates is_write c"
proof (cases r)
  case PostRegister
  then show ?thesis by (simp add: register_def shapeI [OF escalates_register])
next
  case PostLogin
  then show ?thesis by (simp add: login_def shapeI [OF escalates_login])
next
  case PostLookup
  then show ?thesis by (simp add: lookup_def shapeI [OF escalates_lookup])
next
  case GetProducts
  then show ?thesis by (simp add: getProducts_def shapeI [OF escalates_getProducts])
next
  case GetProduct
  then show ?thesis by (simp add: getProduct_def shapeI [OF escalates_getProduct])
next
  case PostProducts
  then show ?thesis by (simp add: postProducts_def shapeI [OF escalates_postProducts])
next
  case PostImage
  then show ?thesis by (simp add: uploadImage_def shapeI [OF escalates_uploadImage])
next
  case DeleteProduct
  then show ?thesis by (simp add: deleteProduct_def shapeI [OF escalates_deleteProduct])
next
  case GetStats
  then show ?thesis by (simp add: stats_def shapeI [OF escalates_stats])
next
  case GetHistory
  then show ?thesis by (simp add: history_def shapeI [OF escalates_history])
next
  case GetExportCsv
  then show ?thesis by (simp add: exportCsv_def shapeI [OF escalates_exportCsv])
next
  case PostBulk
  assume "r \<noteq> PostBulk"
  with PostBulk show ?thesis by simp
next
  case GetSettings
  then show ?thesis by (simp add: getSettings_def shapeI [OF escalates_getSettings])
next
  case PostSettings
  then show ?thesis by (simp add: postSettings_def shapeI [OF escalates_postSettings])
qed

lemma handler_shape_queries:
  "r = GetStats \<or> r = GetHistory \<or> r = GetExportCsv \<or> r = GetSettings \<Longrightarrow>
   \<exists>l c. handler e r req user = try_catch_500 l c \<and> escalates any_op c"
  by (auto simp: stats_def history_def exportCsv_def getSettings_def
      intro!: shapeI escalates_stats escalates_history escalates_exportCsv escalates_getSettings)

lemma handler_eq:
  "handler e r req user = try_catch_500 (handler_label r) (handler_body e r req user)"
  by (cases r)
     (simp_all add: register_def login_def lookup_def getProducts_def getProduct_def postProducts_def
      uploadImage_def deleteProduct_def stats_def history_def exportCsv_def bulk_def getSettings_def
      postSettings_def)

lemma try_catch_500_throws:
  assumes "fst (c w) = Inl err"
  shows "fst (try_catch_500 l c w) = Inr (json_response 500 (error_body (message err)))
       \<and> console (snd (try_catch_500 l c w)) =
           console (snd (c w)) @ (case l of None \<Rightarrow> [] | Some t \<Rightarrow> [t @ '' '' @ message err])"
proof -
  obtain w1 where "c w = (Inl err, w1)"
    using assms by (cases "c w") simp
  then show ?thesis
    by (cases l)
       (simp_all add: try_catch_500_def catchE_def bindE_def returnE_def console_error_def)
qed

lemma handler_label_routes:
  "(handler_label r \<noteq> None) =
     (r = PostRegister \<or> r = PostLogin \<or> r = GetProducts \<or> r = PostProducts \<or> r = GetStats)"
  by (cases r) simp_all

lemma bulk_not_iterable:
  assumes "iterate (obj_get (req_body req) ''barcodes'') = Inl err"
  shows "fst (bulk e req user w) = Inr (json_response 500 (error_body (message err)))"
  using assms
  by (simp add: bulk_def bulk_body_def try_catch_500_def catchE_def bindE_def liftE_def returnE_def
      throwE_def)

lemma findRecordByField_failed:
  assumes "next_fault w = Some m"
  shows "findRecordByField e t f v w =
           (Inr None,
            (after_call Select t (Some m) w)
              \<lparr>console := console w @ [''Error finding record in '' @ table_name t @ '': '' @ m]\<rparr>)"
  using assms by (simp add: findRecordByField_eq)

text \<open>
  C5, as stated, fails. In \<open>GET /api/products/:barcode\<close> the query on Products throws
  and the response is 404, not 500. In \<open>DELETE /api/products/:barcode\<close> the
  \<open>destroy\<close> throws and the response is 500 with the message, but nothing is logged.
\<close>

theorem failed_lookup_answers_404_not_500:
  "calls (snd (app demo_env GetProduct (demo_request (Some ''Bearer good-token'') [] ''123'')
                 (demo_world\<lparr>faults := [None, Some ''timeout'']\<rparr>)))
     = [(Select, USERS, None), (Select, PRODUCTS, Some ''timeout'')]
   \<and> fst (app demo_env GetProduct (demo_request (Some ''Bearer good-token'') [] ''123'')
            (demo_world\<lparr>faults := [None, Some ''timeout'']\<rparr>))
     = Inr (json_response 404 (error_body ''Product not found''))
   \<and> calls (snd (app demo_env DeleteProduct (demo_request (Some ''Bearer good-token'') [] ''123'')
                 (demo_world\<lparr>faults := [None, None, Some ''timeout'']\<rparr>)))
     = [(Select, USERS, None), (Select, PRODUCTS, None), (Destroy, PRODUCTS, Some ''timeout'')]
   \<and> fst (app demo_env DeleteProduct (demo_request (Some ''Bearer good-token'') [] ''123'')
            (demo_world\<lparr>faults := [None, None, Some ''timeout'']\<rparr>))
     = Inr (json_response 500 (error_body ''timeout''))
   \<and> console (snd (app demo_env DeleteProduct (demo_request (Some ''Bearer good-token'') [] ''123'')
                 (demo_world\<lparr>faults := [None, None, Some ''timeout'']\<rparr>))) = []"
  by code_simp

text \<open>
  C5, amended. Every route handler is one \<open>try\<close> block with a \<open>catch\<close>: whatever
  error the block throws, the response has status 500 and a JSON body that carries the
  message of the error. The \<open>catch\<close> logs the error in five handlers only: register,
  login, \<open>GET /api/products\<close>, \<open>POST /api/products\<close> and stats. Among the errors
  that reach the \<open>catch\<close>: in every handler other than the bulk one, a failed write to
  Airtable (create, update or destroy); in the handlers of stats, history, export and
  \<open>GET /api/settings\<close>, which query Airtable directly, a failed query; in login, an
  error thrown by \<open>bcrypt.compare\<close>; in the bulk handler, \<open>barcodes\<close> not being
  iterable. A failed query inside \<open>findRecordByField\<close> does not reach it: it is caught
  there, logged, and \<open>null\<close> is returned. In \<open>POST /api/products/bulk\<close>, for an
  array of barcodes, there is exactly one \<open>createRecord\<close> for each barcode whether or
  not earlier ones failed; each failure is recorded in \<open>errors\<close> with its barcode and
  message; the response has status 200 and reports \<open>success\<close> and \<open>failed\<close>, which
  add up to the number of barcodes.
\<close>

theorem failures_answered_500_and_bulk_per_item:
  "(fst (handler_body e r req user w) = Inl err \<longrightarrow>
      fst (handler e r req user w) = Inr (json_response 500 (error_body (message err)))
      \<and> console (snd (handler e r req user w)) =
          console (snd (handler_body e r req user w))
          @ (case handler_label r of None \<Rightarrow> [] | Some t \<Rightarrow> [t @ '' '' @ message err]))
   \<and> (handler_label r \<noteq> None) =
        (r = PostRegister \<or> r = PostLogin \<or> r = GetProducts \<or> r = PostProducts \<or> r = GetStats)
   \<and> (r \<noteq> PostBulk \<and> m \<in> set (failures is_write (new_calls w (snd (handler e r req user w)))) \<longrightarrow>
      fst (handler e r req user w) = Inr (json_response 500 (error_body m)))
   \<and> ((r = GetStats \<or> r = GetHistory \<or> r = GetExportCsv \<or> r = GetSettings)
       \<and> m \<in> set (failures any_op (new_calls w (snd (handler e r req user w)))) \<longrightarrow>
      fst (handler e r req user w) = Inr (json_response 500 (error_body m)))
   \<and> (findRecordByField e USERS ''Email'' (template e (obj_get (req_body req) ''email'')) w
         = (Inr (Some u), w1)
       \<and> bcrypt_compare e (obj_get (req_body req) ''password'') (obj_get u ''Password'') = Inl err \<longrightarrow>
      fst (login e req w) = Inr (json_response 500 (error_body (message err))))
   \<and> (iterate (obj_get (req_body req) ''barcodes'') = Inl err \<longrightarrow>
      fst (bulk e req user w) = Inr (json_response 500 (error_body (message err))))
   \<and> (next_fault w = Some m \<longrightarrow>
      findRecordByField e t f v w =
        (Inr None,
         (after_call Select t (Some m) w)
           \<lparr>console := console w @ [''Error finding record in '' @ table_name t @ '': '' @ m]\<rparr>))
   \<and> (iterate (obj_get (req_body req) ''barcodes'') = Inr bs \<longrightarrow>
      (\<exists>results.
           fst (bulk e req user w) =
             Inr (json_response 200
                    (JObj [(''success'', JNum (of_nat (length results))),
                           (''failed'',
                            JNum (of_nat (length (bulk_errors (zip bs (scheduled (length bs) (faults w))))))),
                           (''results'', JArr results),
                           (''errors'', JArr (bulk_errors (zip bs (scheduled (length bs) (faults w)))))]))
         \<and> length results + length (bulk_errors (zip bs (scheduled (length bs) (faults w)))) = length bs
         \<and> new_calls w (snd (bulk e req user w)) =
             map (\<lambda>outcome. (Create, PRODUCTS, outcome)) (scheduled (length bs) (faults w))))"
proof -
  have caught: "fst (handler_body e r req user w) = Inl err \<longrightarrow>
      fst (handler e r req user w) = Inr (json_response 500 (error_body (message err)))
      \<and> console (snd (handler e r req user w)) =
          console (snd (handler_body e r req user w))
          @ (case handler_label r of None \<Rightarrow> [] | Some t \<Rightarrow> [t @ '' '' @ message err])"
    unfolding handler_eq by (intro impI) (rule try_catch_500_throws)
  have writes: "r \<noteq> PostBulk \<and> m \<in> set (failures is_write (new_calls w (snd (handler e r req user w)))) \<longrightarrow>
      fst (handler e r req user w) = Inr (json_response 500 (error_body m))"
  proof
    assume a: "r \<noteq> PostBulk \<and> m \<in> set (failures is_write (new_calls w (snd (handler e r req user w))))"
    then obtain l c where h: "handler e r req user = try_catch_500 l c" and esc: "escalates is_write c"
      using handler_shape by blast
    from a show "fst (handler e r req user w) = Inr (json_response 500 (error_body m))"
      unfolding h by (intro try_catch_500_escalated [OF esc]) simp
  qed
  have queries: "(r = GetStats \<or> r = GetHistory \<or> r = GetExportCsv \<or> r = GetSettings)
       \<and> m \<in> set (failures any_op (new_calls w (snd (handler e r req user w)))) \<longrightarrow>
      fst (handler e r req user w) = Inr (json_response 500 (error_body m))"
  proof
    assume a: "(r = GetStats \<or> r = GetHistory \<or> r = GetExportCsv \<or> r = GetSettings)
       \<and> m \<in> set (failures any_op (new_calls w (snd (handler e r req user w))))"
    then obtain l c where h: "handler e r req user = try_catch_500 l c" and esc: "escalates any_op c"
      using handler_shape_queries by blast
    from a show "fst (handler e r req user w) = Inr (json_response 500 (error_body m))"
      unfolding h by (intro try_catch_500_escalated [OF esc]) simp
  qed
  have compare: "findRecordByField e USERS ''Email'' (template e (obj_get (req_body req) ''email'')) w
         = (Inr (Some u), w1)
       \<and> bcrypt_compare e (obj_get (req_body req) ''password'') (obj_get u ''Password'') = Inl err \<longrightarrow>
      fst (login e req w) = Inr (json_response 500 (error_body (message err)))"
    by (intro impI, elim conjE) (rule login_compare_throws)
  have outer: "iterate (obj_get (req_body req) ''barcodes'') = Inl err \<longrightarrow>
      fst (bulk e req user w) = Inr (json_response 500 (error_body (message err)))"
    by (intro impI) (rule bulk_not_iterable)
  have swallowed: "next_fault w = Some m \<longrightarrow>
      findRecordByField e t f v w =
        (Inr None,
         (after_call Select t (Some m) w)
           \<lparr>console := console w @ [''Error finding record in '' @ table_name t @ '': '' @ m]\<rparr>)"
    by (intro impI) (rule findRecordByField_failed)
  have per_item: "iterate (obj_get (req_body req) ''barcodes'') = Inr bs \<longrightarrow>
      (\<exists>results.
           fst (bulk e req user w) =
             Inr (json_response 200
                    (JObj [(''success'', JNum (of_nat (length results))),
                           (''failed'',
                            JNum (of_nat (length (bulk_errors (zip bs (scheduled (length bs) (faults w))))))),
                           (''results'', JArr results),
                           (''errors'', JArr (bulk_errors (zip bs (scheduled (length bs) (faults w)))))]))
         \<and> length results + length (bulk_errors (zip bs (scheduled (length bs) (faults w)))) = length bs
         \<and> new_calls w (snd (bulk e req user w)) =
             map (\<lambda>outcome. (Create, PRODUCTS, outcome)) (scheduled (length bs) (faults w)))"
    by (intro impI) (rule bulk_response)
  from caught handler_label_routes writes queries compare outer swallowed per_item
  show ?thesis
    by (intro conjI)
qed

theorem failures_answered_500_and_bulk_per_item_witness:
  "''timeout'' \<in> set (failures is_write (new_calls (demo_world\<lparr>faults := [None, Some ''timeout'']\<rparr>)
       (snd (handler demo_env DeleteProduct (demo_request None [] ''123'') demo_user
               (demo_world\<lparr>faults := [None, Some ''timeout'']\<rparr>)))))
   \<and> fst (handler demo_env DeleteProduct (demo_request None [] ''123'') demo_user
            (demo_world\<lparr>faults := [None, Some ''timeout'']\<rparr>))
       = Inr (json_response 500 (error_body ''timeout''))
   \<and> ''timeout'' \<in> set (failures any_op (new_calls (demo_world\<lparr>faults := [Some ''timeout'']\<rparr>)
       (snd (handler demo_env GetHistory (demo_request None [] []) demo_user
               (demo_world\<lparr>faults := [Some ''timeout'']\<rparr>)))))
   \<and> fst (handler demo_env GetHistory (demo_request None [] []) demo_user
            (demo_world\<lparr>faults := [Some ''timeout'']\<rparr>))
       = Inr (json_response 500 (error_body ''timeout''))
   \<and> (\<exists>results.
         fst (bulk demo_env
                (demo_request None [(''barcodes'', JArr [JStr ''111'', JStr ''222'', JStr ''333''])] [])
                demo_user (demo_world\<lparr>faults := [None, Some ''rate limited'']\<rparr>))
           = Inr (json_response 200
                    (JObj [(''success'', JNum (of_nat (length results))),
                           (''failed'', JNum 1),
                           (''results'', JArr results),
                           (''errors'',
                            JArr [JObj [(''barcode'', JStr ''222''), (''error'', JStr ''rate limited'')]])]))
         \<and> length results + 1 = 3)
   \<and> new_calls (demo_world\<lparr>faults := [None, Some ''rate limited'']\<rparr>)
        (snd (bulk demo_env
                (demo_request None [(''barcodes'', JArr [JStr ''111'', JStr ''222'', JStr ''333''])] [])
                demo_user (demo_world\<lparr>faults := [None, Some ''rate limited'']\<rparr>)))
       = [(Create, PRODUCTS, None), (Create, PRODUCTS, Some ''rate limited''), (Create, PRODUCTS, None)]
   \<and> fst (handler_body demo_env PostLogin
            (demo_request None [(''email'', JStr ''ann@example.com'')] []) demo_user demo_world)
       = Inl (JsError ''Error'' ''Illegal arguments: undefined, string'')
   \<and> fst (handler demo_env PostLogin
            (demo_request None [(''email'', JStr ''ann@example.com'')] []) demo_user demo_world)
       = Inr (json_response 500 (error_body ''Illegal arguments: undefined, string''))
   \<and> console (snd (handler demo_env PostLogin
            (demo_request None [(''email'', JStr ''ann@example.com'')] []) demo_user demo_world))
       = [''Login error: Illegal arguments: undefined, string'']
   \<and> fst (login demo_env (demo_request None [(''email'', JStr ''ann@example.com'')] []) demo_world)
       = Inr (json_response 500 (error_body ''Illegal arguments: undefined, string''))
   \<and> fst (bulk demo_env (demo_request None [] []) demo_user demo_world)
       = Inr (json_response 500 (error_body ''barcodes is not iterable''))
   \<and> fst (findRecordByField demo_env PRODUCTS ''Barcode'' ''123''
            (demo_world\<lparr>faults := [Some ''timeout'']\<rparr>)) = Inr None
   \<and> console (snd (findRecordByField demo_env PRODUCTS ''Barcode'' ''123''
            (demo_world\<lparr>faults := [Some ''timeout'']\<rparr>)))
       = [''Error finding record in Products: timeout'']"
proof -
  let ?w1 = "demo_world\<lparr>faults := [None, Some ''timeout'']\<rparr>"
  let ?w2 = "demo_world\<lparr>faults := [Some ''timeout'']\<rparr>"
  let ?w3 = "demo_world\<lparr>faults := [None, Some ''rate limited'']\<rparr>"
  let ?req3 = "demo_request None [(''barcodes'', JArr [JStr ''111'', JStr ''222'', JStr ''333''])] []"
  let ?bs = "[JStr ''111'', JStr ''222'', JStr ''333'']"
  have 1: "DeleteProduct \<noteq> PostBulk
      \<and> ''timeout'' \<in> set (failures is_write (new_calls ?w1
            (snd (handler demo_env DeleteProduct (demo_request None [] ''123'') demo_user ?w1))))"
    by code_simp
  have 2: "(GetHistory = GetStats \<or> GetHistory = GetHistory \<or> GetHistory = GetExportCsv
            \<or> GetHistory = GetSettings)
      \<and> ''timeout'' \<in> set (failures any_op (new_calls ?w2
            (snd (handler demo_env GetHistory (demo_request None [] []) demo_user ?w2))))"
    by code_simp
  have 3: "iterate (obj_get (req_body ?req3) ''barcodes'') = Inr ?bs"
    by code_simp
  have 4: "scheduled (length ?bs) (faults ?w3) = [None, Some ''rate limited'', None]"
    by code_simp
  have 5: "bulk_errors (zip ?bs [None, Some ''rate limited'', None])
             = [JObj [(''barcode'', JStr ''222''), (''error'', JStr ''rate limited'')]]"
    by code_simp
  have a: "fst (handler demo_env DeleteProduct (demo_request None [] ''123'') demo_user ?w1)
             = Inr (json_response 500 (error_body ''timeout''))"
    by (rule failures_answered_500_and_bulk_per_item [THEN conjunct2, THEN conjunct2, THEN conjunct1, THEN mp]) (rule 1)
  have b: "fst (handler demo_env GetHistory (demo_request None [] []) demo_user ?w2)
             = Inr (json_response 500 (error_body ''timeout''))"
    by (rule failures_answered_500_and_bulk_per_item [THEN conjunct2, THEN conjunct2, THEN conjunct2, THEN conjunct1, THEN mp])
       (rule 2)
  have "\<exists>results.
           fst (bulk demo_env ?req3 demo_user ?w3) =
             Inr (json_response 200
                    (JObj [(''success'', JNum (of_nat (length results))),
                           (''failed'',
                            JNum (of_nat (length (bulk_errors (zip ?bs (scheduled (length ?bs) (faults ?w3))))))),
                           (''results'', JArr results),
                           (''errors'', JArr (bulk_errors (zip ?bs (scheduled (length ?bs) (faults ?w3)))))]))
         \<and> length results + length (bulk_errors (zip ?bs (scheduled (length ?bs) (faults ?w3)))) = length ?bs
         \<and> new_calls ?w3 (snd (bulk demo_env ?req3 demo_user ?w3)) =
             map (\<lambda>outcome. (Create, PRODUCTS, outcome)) (scheduled (length ?bs) (faults ?w3))"
    by (rule failures_answered_500_and_bulk_per_item
          [where r = PostBulk and m = "[]", THEN conjunct2, THEN conjunct2, THEN conjunct2,
           THEN conjunct2, THEN conjunct2, THEN conjunct2, THEN conjunct2, THEN mp])
       (rule 3)
  then obtain results where
    c: "fst (bulk demo_env ?req3 demo_user ?w3) =
             Inr (json_response 200
                    (JObj [(''success'', JNum (of_nat (length results))),
                           (''failed'',
                            JNum (of_nat (length (bulk_errors (zip ?bs [None, Some ''rate limited'', None]))))),
                           (''results'', JArr results),
                           (''errors'', JArr (bulk_errors (zip ?bs [None, Some ''rate limited'', None])))]))"
    and d: "length results + length (bulk_errors (zip ?bs [None, Some ''rate limited'', None])) = length ?bs"
    and f: "new_calls ?w3 (snd (bulk demo_env ?req3 demo_user ?w3)) =
             map (\<lambda>outcome. (Create, PRODUCTS, outcome)) [None, Some ''rate limited'', None]"
    unfolding 4 by blast
  have g: "\<exists>results.
         fst (bulk demo_env ?req3 demo_user ?w3)
           = Inr (json_response 200
                    (JObj [(''success'', JNum (of_nat (length results))),
                           (''failed'', JNum 1),
                           (''results'', JArr results),
                           (''errors'',
                            JArr [JObj [(''barcode'', JStr ''222''), (''error'', JStr ''rate limited'')]])]))
         \<and> length results + 1 = 3"
    using c d unfolding 5 by (intro exI [of _ results]) simp
  have h: "new_calls ?w3 (snd (bulk demo_env ?req3 demo_user ?w3))
       = [(Create, PRODUCTS, None), (Create, PRODUCTS, Some ''rate limited''), (Create, PRODUCTS, None)]"
    using f by simp
  let ?reqL = "demo_request None [(''email'', JStr ''ann@example.com'')] []"
  let ?err = "JsError ''Error'' ''Illegal arguments: undefined, string''"
  let ?w4 = "after_call Select USERS None demo_world"
  have 6: "fst (handler_body demo_env PostLogin ?reqL demo_user demo_world) = Inl ?err"
    by code_simp
  have 7: "console (snd (handler_body demo_env PostLogin ?reqL demo_user demo_world)) = []
      \<and> handler_label PostLogin = Some ''Login error:''
      \<and> message ?err = ''Illegal arguments: undefined, string''"
    by code_simp
  have "fst (handler demo_env PostLogin ?reqL demo_user demo_world)
          = Inr (json_response 500 (error_body (message ?err)))
      \<and> console (snd (handler demo_env PostLogin ?reqL demo_user demo_world)) =
          console (snd (handler_body demo_env PostLogin ?reqL demo_user demo_world))
          @ (case handler_label PostLogin of None \<Rightarrow> [] | Some t \<Rightarrow> [t @ '' '' @ message ?err])"
    by (rule failures_answered_500_and_bulk_per_item [THEN conjunct1, THEN mp]) (rule 6)
  then have i: "fst (handler demo_env PostLogin ?reqL demo_user demo_world)
          = Inr (json_response 500 (error_body ''Illegal arguments: undefined, string''))"
    and j: "console (snd (handler demo_env PostLogin ?reqL demo_user demo_world))
          = [''Login error: Illegal arguments: undefined, string'']"
    using 7 by simp_all
  have 8: "findRecordByField demo_env USERS ''Email''
             (template demo_env (obj_get (req_body ?reqL) ''email'')) demo_world
           = (Inr (Some demo_user), ?w4)
      \<and> bcrypt_compare demo_env (obj_get (req_body ?reqL) ''password'') (obj_get demo_user ''Password'')
           = Inl ?err"
    by code_simp
  have "fst (login demo_env ?reqL demo_world) = Inr (json_response 500 (error_body (message ?err)))"
    by (rule failures_answered_500_and_bulk_per_item
          [THEN conjunct2, THEN conjunct2, THEN conjunct2, THEN conjunct2, THEN conjunct1, THEN mp])
       (rule 8)
  then have k: "fst (login demo_env ?reqL demo_world)
      = Inr (json_response 500 (error_body ''Illegal arguments: undefined, string''))"
    by simp
  have 9: "iterate (obj_get (req_body (demo_request None [] [])) ''barcodes'')
      = Inl (JsError ''TypeError'' ''barcodes is not iterable'')"
    by code_simp
  have "fst (bulk demo_env (demo_request None [] []) demo_user demo_world)
      = Inr (json_response 500 (error_body (message (JsError ''TypeError'' ''barcodes is not iterable''))))"
    by (rule failures_answered_500_and_bulk_per_item
          [THEN conjunct2, THEN conjunct2, THEN conjunct2, THEN conjunct2, THEN conjunct2,
           THEN conjunct1, THEN mp])
       (rule 9)
  then have l: "fst (bulk demo_env (demo_request None [] []) demo_user demo_world)
      = Inr (json_response 500 (error_body ''barcodes is not iterable''))"
    by simp
  have 10: "next_fault ?w2 = Some ''timeout''"
    by (simp add: next_fault_def)
  have "findRecordByField demo_env PRODUCTS ''Barcode'' ''123'' ?w2 =
        (Inr None,
         (after_call Select PRODUCTS (Some ''timeout'') ?w2)
           \<lparr>console := console ?w2 @ [''Error finding record in '' @ table_name PRODUCTS @ '': '' @ ''timeout'']\<rparr>)"
    by (rule failures_answered_500_and_bulk_per_item
          [THEN conjunct2, THEN conjunct2, THEN conjunct2, THEN conjunct2, THEN conjunct2,
           THEN conjunct2, THEN conjunct1, THEN mp])
       (rule 10)
  then have n: "fst (findRecordByField demo_env PRODUCTS ''Barcode'' ''123'' ?w2) = Inr None"
    and o: "console (snd (findRecordByField demo_env PRODUCTS ''Barcode'' ''123'' ?w2))
          = [''Error finding record in Products: timeout'']"
    by (simp_all add: demo_world_def)
  have w1: "''timeout'' \<in> set (failures is_write (new_calls ?w1
            (snd (handler demo_env DeleteProduct (demo_request None [] ''123'') demo_user ?w1))))"
    using 1 by (rule conjunct2)
  have w2: "''timeout'' \<in> set (failures any_op (new_calls ?w2
            (snd (handler demo_env GetHistory (demo_request None [] []) demo_user ?w2))))"
    using 2 by (rule conjunct2)
  from w1 a w2 b g h 6 i j k l n o show ?thesis
    by (intro conjI)
qed


end
